theory Spec2Isabelle
  imports Main
begin

section \<open>Strings and JavaScript values\<close>

text \<open>
  A JavaScript string is modelled as a \<^typ>\<open>string\<close>: a list of characters, one
  \<^typ>\<open>char\<close> per code unit (the model covers the code units below 256).
  The functions below are the string methods the extension calls, written as
  recursive functions; they are named after the methods.
\<close>

text \<open>\<^verbatim>\<open>s.startsWith(p)\<close>\<close>

fun startsWith :: "string \<Rightarrow> string \<Rightarrow> bool" where
  "startsWith s [] = True"
| "startsWith [] (p # ps) = False"
| "startsWith (c # s) (p # ps) = (c = p \<and> startsWith s ps)"

text \<open>\<^verbatim>\<open>s.includes(sub)\<close>: \<open>sub\<close> occurs in \<open>s\<close> as a contiguous block.\<close>

fun includes_str :: "string \<Rightarrow> string \<Rightarrow> bool" where
  "includes_str [] sub = (sub = [])"
| "includes_str (c # s) sub = (startsWith (c # s) sub \<or> includes_str s sub)"

text \<open>
  \<^verbatim>\<open>s.toLowerCase()\<close>, for the letters A to Z; every other code unit is left as
  it is (the letters outside ASCII that JavaScript would fold are not folded here).
\<close>

definition lowerChar :: "char \<Rightarrow> char" where
  "lowerChar c =
     (case map_of (zip ''ABCDEFGHIJKLMNOPQRSTUVWXYZ'' ''abcdefghijklmnopqrstuvwxyz'') c of
        None \<Rightarrow> c
      | Some l \<Rightarrow> l)"

definition toLowerCase :: "string \<Rightarrow> string" where
  "toLowerCase s = map lowerChar s"

text \<open>The decimal numeral of a natural number, as a template string prints it.\<close>

definition digitChar :: "nat \<Rightarrow> char" where
  "digitChar d = ''0123456789'' ! d"

function showNat :: "nat \<Rightarrow> string" where
  "showNat n = (if n < 10 then [digitChar n] else showNat (n div 10) @ [digitChar (n mod 10)])"
  by pat_completeness auto
termination
  by (relation "measure (\<lambda>n. n)") auto

declare showNat.simps [simp del]

text \<open>\<^verbatim>\<open>lines.join("\n")\<close>\<close>

fun joinLines :: "string list \<Rightarrow> string" where
  "joinLines [] = []"
| "joinLines [l] = l"
| "joinLines (l # m # ls) = l @ [CHR 0x0A] @ joinLines (m # ls)"

text \<open>
  \<^verbatim>\<open>path.parse(f).name\<close> of Node's \<^verbatim>\<open>path\<close> module, for a directory entry \<open>f\<close>
  (a name with no path separator, as \<^verbatim>\<open>fs.readdirSync\<close> returns them): the name
  up to its last dot, unless the name has no dot, its only dot is the leading one, or the
  name is \<^verbatim>\<open>..\<close>; then the whole name.
\<close>

definition beforeLastDot :: "string \<Rightarrow> string" where
  "beforeLastDot f = rev (tl (dropWhile (\<lambda>c. c \<noteq> CHR ''.'') (rev f)))"

definition path_parse_name :: "string \<Rightarrow> string" where
  "path_parse_name f =
     (if CHR ''.'' \<notin> set f \<or> beforeLastDot f = [] \<or> f = ''..'' then f
      else beforeLastDot f)"

text \<open>
  A value of type \<^verbatim>\<open>any\<close>, as \<^verbatim>\<open>jsonc.parse\<close> returns it: the JSON values and
  \<^verbatim>\<open>undefined\<close>. An object is the list of its properties in enumeration order.
  Numbers are the integers (no claim depends on a fraction).
\<close>

datatype jsval =
    JUndefined
  | JNull
  | JBool bool
  | JNum int
  | JStr string
  | JArr "jsval list"
  | JObj "(string \<times> jsval) list"

text \<open>Truthiness, as \<^verbatim>\<open>if (v)\<close>, \<^verbatim>\<open>v || w\<close> and \<^verbatim>\<open>v && w\<close> test it.\<close>

fun truthy :: "jsval \<Rightarrow> bool" where
  "truthy JUndefined = False"
| "truthy JNull = False"
| "truthy (JBool b) = b"
| "truthy (JNum n) = (n \<noteq> 0)"
| "truthy (JStr s) = (s \<noteq> [])"
| "truthy (JArr xs) = True"
| "truthy (JObj ps) = True"

fun isArray :: "jsval \<Rightarrow> bool" where
  "isArray (JArr xs) = True"
| "isArray v = False"

text \<open>
  Assigning a property of an object under construction: an existing key keeps its place
  and takes the new value, a new key goes to the end.
\<close>

fun setProp :: "string \<Rightarrow> jsval \<Rightarrow> (string \<times> jsval) list \<Rightarrow> (string \<times> jsval) list" where
  "setProp k v [] = [(k, v)]"
| "setProp k v (p # ps) = (if fst p = k then (k, v) # ps else p # setProp k v ps)"

text \<open>
  The own enumerable properties an object spread \<^verbatim>\<open>{...v}\<close> copies: the properties
  of an object, the indexed elements of an array, the indexed characters of a string, and
  nothing for \<^verbatim>\<open>undefined\<close>, \<^verbatim>\<open>null\<close>, a boolean or a number.
\<close>

definition indexed :: "jsval list \<Rightarrow> (string \<times> jsval) list" where
  "indexed xs = zip (map showNat [0..<length xs]) xs"

fun ownProps :: "jsval \<Rightarrow> (string \<times> jsval) list" where
  "ownProps (JObj ps) = ps"
| "ownProps (JArr xs) = indexed xs"
| "ownProps (JStr s) = indexed (map (\<lambda>c. JStr [c]) s)"
| "ownProps v = []"

text \<open>\<^verbatim>\<open>{...acc, ...v}\<close> where \<open>acc\<close> holds the properties copied so far.\<close>

definition spreadInto :: "(string \<times> jsval) list \<Rightarrow> jsval \<Rightarrow> (string \<times> jsval) list" where
  "spreadInto acc v = fold (\<lambda>(k, w). setProp k w) (ownProps v) acc"

section \<open>The Item model (ExtensionTreeProvider)\<close>

datatype ExtensionStatus = Pending | Installing | Success | Failed | AlreadyInstalled

text \<open>
  \<^verbatim>\<open>interface ExtensionData\<close>. The field \<^verbatim>\<open>id\<close> is \<open>id_str\<close> here; an optional
  field that is absent is \<^term>\<open>None\<close>.
\<close>

record ExtensionData =
  id_str :: string
  displayName :: "string option"
  description :: "string option"
  version :: "string option"
  publisher :: "string option"

text \<open>An optional string is truthy when it is present and not empty.\<close>

definition truthyStr :: "string option \<Rightarrow> bool" where
  "truthyStr s = (case s of None \<Rightarrow> False | Some t \<Rightarrow> t \<noteq> [])"

text \<open>\<^verbatim>\<open>a || b\<close> for an optional string \<open>a\<close>.\<close>

definition orElse :: "string option \<Rightarrow> string \<Rightarrow> string" where
  "orElse a b = (if truthyStr a then the a else b)"

datatype CheckboxState = Unchecked | Checked

text \<open>\<^verbatim>\<open>new vscode.ThemeIcon(id, color)\<close>, the colour being a theme colour's name.\<close>

datatype ThemeIcon = ThemeIcon string "string option"

text \<open>
  \<^verbatim>\<open>class ExtensionItem extends vscode.TreeItem\<close>: the fields the class declares and
  the fields of the tree item it assigns. The tree item's \<^verbatim>\<open>description\<close> is
  \<open>description_item\<close>. Its \<^verbatim>\<open>id\<close> is assigned once, from the read-only
  \<open>extensionData\<close>, and never again, so it is read off \<open>extensionData\<close>
  (\<open>item_id\<close>). \<open>command\<close> holds the command's name; its argument is the item
  itself. The collapsible state is the same constant for every item and is left out.
\<close>

record ExtensionItem =
  extensionData :: ExtensionData
  status :: ExtensionStatus
  errorMessage :: "string option"
  selected :: bool
  settingsData :: jsval
  label :: string
  description_item :: string
  tooltip :: string
  contextValue :: string
  checkboxState :: CheckboxState
  iconPath :: ThemeIcon
  command :: "string option"

definition item_id :: "ExtensionItem \<Rightarrow> string" where
  "item_id e = id_str (extensionData e)"

definition updateCheckbox :: "ExtensionItem \<Rightarrow> ExtensionItem" where
  "updateCheckbox this = this\<lparr>checkboxState := (if selected this then Checked else Unchecked)\<rparr>"

definition updateIcon :: "ExtensionItem \<Rightarrow> ExtensionItem" where
  "updateIcon this =
     (case status this of
        Success \<Rightarrow> this\<lparr>iconPath := ThemeIcon ''check'' (Some ''testing.iconPassed'')\<rparr>
      | Failed \<Rightarrow>
          this\<lparr>iconPath := ThemeIcon ''error'' (Some ''testing.iconFailed''),
               command := Some ''vscode-extension-manager.showError''\<rparr>
      | Installing \<Rightarrow> this\<lparr>iconPath := ThemeIcon ''sync~spin'' None\<rparr>
      | AlreadyInstalled \<Rightarrow>
          this\<lparr>iconPath := ThemeIcon ''verified'' (Some ''testing.iconPassed'')\<rparr>
      | Pending \<Rightarrow>
          this\<lparr>iconPath :=
                 (if item_id this = ''settings'' then ThemeIcon ''settings-gear'' None
                  else ThemeIcon ''extensions'' None)\<rparr>)"

text \<open>The tooltip's lines, before they are joined.\<close>

definition tooltipLines :: "ExtensionData \<Rightarrow> string list" where
  "tooltipLines d =
     [''**'' @ orElse (displayName d) (id_str d) @ ''**'', [], ''**ID:** '' @ id_str d]
     @ (if truthyStr (publisher d) then [''**Publisher:** '' @ the (publisher d)] else [])
     @ (if truthyStr (version d) then [''**Version:** '' @ the (version d)] else [])
     @ (if truthyStr (description d) then [[], the (description d)] else [])"

text \<open>
  The constructor. The field initialisers (\<open>status\<close>, \<open>selected\<close>) run first, then
  the body in its order: the checkbox is computed from \<open>selected\<close> by
  \<open>updateCheckbox\<close>, and the settings item gets its own icon and context value last.
  An item built without settings data holds \<^term>\<open>JUndefined\<close>.
\<close>

definition newExtensionItem :: "ExtensionData \<Rightarrow> jsval \<Rightarrow> ExtensionItem" where
  "newExtensionItem d sd =
     (let this = updateCheckbox
            \<lparr>extensionData = d, status = Pending, errorMessage = None, selected = True,
             settingsData = sd,
             label = orElse (displayName d) (id_str d),
             description_item =
               (if truthyStr (description d)
                then (if length (the (description d)) > 50
                      then take 47 (the (description d)) @ ''...''
                      else the (description d))
                else id_str d),
             tooltip = joinLines (tooltipLines d),
             contextValue = ''extensionItem'',
             checkboxState = Unchecked,
             iconPath = ThemeIcon ''extensions'' None,
             command = None\<rparr>
      in if item_id this = ''settings''
         then this\<lparr>iconPath := ThemeIcon ''settings-gear'' None, contextValue := ''settingsItem''\<rparr>
         else this)"

section \<open>The Collection Store (ExtensionTreeProvider)\<close>

text \<open>
  The provider's state is its array \<open>extensions\<close>. Every operation is a function from
  the array before to the array after. The items of the array are distinct objects
  (each is built by its own \<^verbatim>\<open>new\<close>), so a list of records stands for the array of
  references. \<^verbatim>\<open>refresh()\<close> and \<^verbatim>\<open>_onDidChangeTreeData.fire\<close> notify the host's
  widget and leave the array as it is.
\<close>

definition loadExtensions :: "ExtensionData list \<Rightarrow> ExtensionItem list \<Rightarrow> ExtensionItem list" where
  "loadExtensions extensionDataList extensions =
     map (\<lambda>data. newExtensionItem data JUndefined) extensionDataList"

definition settingsDescriptor :: ExtensionData where
  "settingsDescriptor =
     \<lparr>id_str = ''settings'', displayName = Some ''VS Code Settings'',
      description = Some ''User settings.json configuration'',
      version = Some ''Current'', publisher = Some ''User''\<rparr>"

definition addSettingsItem :: "jsval \<Rightarrow> ExtensionItem list \<Rightarrow> ExtensionItem list" where
  "addSettingsItem sd extensions =
     newExtensionItem settingsDescriptor sd
       # filter (\<lambda>e. item_id e \<noteq> ''settings'') extensions"

definition getSelectedExtensions :: "ExtensionItem list \<Rightarrow> ExtensionItem list" where
  "getSelectedExtensions extensions = filter selected extensions"

definition selectAll :: "ExtensionItem list \<Rightarrow> ExtensionItem list" where
  "selectAll extensions = map (\<lambda>ext. updateCheckbox (ext\<lparr>selected := True\<rparr>)) extensions"

definition deselectAll :: "ExtensionItem list \<Rightarrow> ExtensionItem list" where
  "deselectAll extensions = map (\<lambda>ext. updateCheckbox (ext\<lparr>selected := False\<rparr>)) extensions"

text \<open>
  \<^verbatim>\<open>updateExtensionStatus\<close>: \<^verbatim>\<open>find\<close> returns the first item with the id; that
  item is updated where it stands, and nothing happens when there is none.
\<close>

fun updateExtensionStatus ::
  "string \<Rightarrow> ExtensionStatus \<Rightarrow> string option \<Rightarrow> ExtensionItem list \<Rightarrow> ExtensionItem list" where
  "updateExtensionStatus i st msg [] = []"
| "updateExtensionStatus i st msg (e # es) =
     (if item_id e = i then updateIcon (e\<lparr>status := st, errorMessage := msg\<rparr>) # es
      else e # updateExtensionStatus i st msg es)"

text \<open>\<^verbatim>\<open>handleCheckboxChange(item, state)\<close>, on the item it is given.\<close>

definition handleCheckboxChange :: "ExtensionItem \<Rightarrow> CheckboxState \<Rightarrow> ExtensionItem" where
  "handleCheckboxChange item state = updateCheckbox (item\<lparr>selected := (state = Checked)\<rparr>)"

section \<open>The host\<close>

text \<open>
  Everything the extension asks of the editor, of Node and of the file system is a field
  of the record \<open>Host\<close>; a field is named after the call it stands for. A call that
  can throw returns a sum, \<^term>\<open>Inl\<close> carrying the error's message. The three calls
  of the installation loop (the cancellation token, the already-installed query, the
  child process) take the number of the loop iteration that makes them, so that their
  answers may change while the run goes on. \<open>path_join\<close>, \<open>jsonc_parse\<close> and
  \<open>JSON_stringify\<close> are the library functions of those names, which the repository
  does not contain.
\<close>

record ExecResult =
  error_message :: "string option"
  stdout :: string
  stderr :: string

record Host =
  cliCommand_cfg :: "string option"
  appRoot :: string
  appName :: "string option"
  globalStoragePath :: string
  path_join :: "string \<Rightarrow> string \<Rightarrow> string"
  existsSync :: "string \<Rightarrow> bool"
  readdirSync :: "string \<Rightarrow> string + string list"
  readFileSync :: "string \<Rightarrow> string + string"
  writeFileSync :: "string \<Rightarrow> string \<Rightarrow> string option"
  jsonc_parse :: "string \<Rightarrow> string + jsval"
  JSON_stringify :: "jsval \<Rightarrow> nat \<Rightarrow> string"
  isCancellationRequested :: "nat \<Rightarrow> bool"
  getExtension :: "nat \<Rightarrow> string \<Rightarrow> bool"
  exec :: "nat \<Rightarrow> string \<Rightarrow> ExecResult"

section \<open>The CLI resolver (getCLIPath)\<close>

definition candidatesOf :: "string list \<Rightarrow> string list" where
  "candidatesOf files = filter (\<lambda>f. \<not> startsWith f ''.'' \<and> \<not> includes_str f ''tunnel'') files"

definition matchesAppName :: "string \<Rightarrow> string \<Rightarrow> bool" where
  "matchesAppName name f =
     (let base = toLowerCase (path_parse_name f) in includes_str (toLowerCase name) base)"

definition isCodeOrCursor :: "string \<Rightarrow> bool" where
  "isCodeOrCursor f =
     (let name = toLowerCase (path_parse_name f)
      in name = ''code'' \<or> name = ''cursor'' \<or> name = ''codium'')"

text \<open>
  \<^verbatim>\<open>a || b\<close> and \<^verbatim>\<open>if (a)\<close> for the result of \<^verbatim>\<open>find\<close>: a found name counts
  only when it is not the empty string.
\<close>

definition foundOr :: "string option \<Rightarrow> string \<Rightarrow> string" where
  "foundOr a b = (case a of None \<Rightarrow> b | Some s \<Rightarrow> if s \<noteq> [] then s else b)"

text \<open>\<^verbatim>\<open>candidates[0]\<close>: \<^verbatim>\<open>undefined\<close>, which is falsy as the empty string is, when there is none.\<close>

definition firstCandidate :: "string list \<Rightarrow> string" where
  "firstCandidate candidates = (case candidates of [] \<Rightarrow> [] | c # cs \<Rightarrow> c)"

definition bestMatchOf :: "string \<Rightarrow> string list \<Rightarrow> string" where
  "bestMatchOf name candidates =
     foundOr (find (matchesAppName name) candidates)
       (foundOr (find isCodeOrCursor candidates) (firstCandidate candidates))"

definition quoted :: "string \<Rightarrow> string" where
  "quoted p = [CHR 0x22] @ p @ [CHR 0x22]"

definition getCLIPath :: "Host \<Rightarrow> string" where
  "getCLIPath h =
     (let cliCommand = orElse (cliCommand_cfg h) ''auto'' in
      if cliCommand = ''auto'' then
        (let binDir = path_join h (appRoot h) ''bin'' in
         if existsSync h binDir then
           (case readdirSync h binDir of
              Inl e \<Rightarrow> cliCommand
            | Inr files \<Rightarrow>
                (let candidates = candidatesOf files in
                 if candidates \<noteq> [] then
                   (let bestMatch = bestMatchOf (orElse (appName h) []) candidates in
                    if bestMatch \<noteq> [] then quoted (path_join h binDir bestMatch)
                    else cliCommand)
                 else cliCommand))
         else cliCommand)
      else cliCommand)"

section \<open>Loading an export file (loadFileCommand)\<close>

text \<open>
  Reading a property \<^verbatim>\<open>v.name\<close>: a \<^verbatim>\<open>TypeError\<close> (\<^term>\<open>None\<close>) on
  \<^verbatim>\<open>undefined\<close> and \<^verbatim>\<open>null\<close>, the property of an object or \<^verbatim>\<open>undefined\<close>
  when it has none, and \<^verbatim>\<open>undefined\<close> on an array, a string, a number and a boolean
  (the two names read, \<^verbatim>\<open>extensions\<close> and \<^verbatim>\<open>settings\<close>, are not properties of
  theirs).
\<close>

fun getProp :: "jsval \<Rightarrow> string \<Rightarrow> jsval option" where
  "getProp JUndefined k = None"
| "getProp JNull k = None"
| "getProp (JObj ps) k = Some (case map_of ps k of None \<Rightarrow> JUndefined | Some v \<Rightarrow> v)"
| "getProp v k = Some JUndefined"

text \<open>
  The file's list is cast to \<^verbatim>\<open>ExtensionData[]\<close> unchecked. \<open>asExtensionData\<close>
  reads an element at that type: an object whose \<^verbatim>\<open>id\<close> is a string and whose
  optional fields are strings or missing (\<^verbatim>\<open>null\<close> is read as missing: the
  constructor only tests these fields for truthiness). \<open>descriptorsOf\<close> reads a whole
  list: \<open>Nullish\<close> when an element is \<^verbatim>\<open>null\<close> or \<^verbatim>\<open>undefined\<close>, on which
  the constructor throws a \<^verbatim>\<open>TypeError\<close> when it reads \<^verbatim>\<open>displayName\<close>, and
  \<open>IllTyped\<close> when an element is otherwise not of the declared type; what the
  JavaScript does with such an element is outside the model.
\<close>

fun optionalString :: "jsval \<Rightarrow> string option option" where
  "optionalString (JStr s) = Some (Some s)"
| "optionalString JUndefined = Some None"
| "optionalString JNull = Some None"
| "optionalString v = None"

definition propOf :: "(string \<times> jsval) list \<Rightarrow> string \<Rightarrow> jsval" where
  "propOf ps k = (case map_of ps k of None \<Rightarrow> JUndefined | Some v \<Rightarrow> v)"

definition asExtensionData :: "jsval \<Rightarrow> ExtensionData option" where
  "asExtensionData v =
     (case v of
        JObj ps \<Rightarrow>
          (case (propOf ps ''id'', optionalString (propOf ps ''displayName''),
                 optionalString (propOf ps ''description''), optionalString (propOf ps ''version''),
                 optionalString (propOf ps ''publisher'')) of
             (JStr i, Some dn, Some de, Some ve, Some pu) \<Rightarrow>
               Some \<lparr>id_str = i, displayName = dn, description = de, version = ve, publisher = pu\<rparr>
           | _ \<Rightarrow> None)
      | _ \<Rightarrow> None)"

datatype descriptors = Typed "ExtensionData list" | Nullish | IllTyped

fun descriptorsOf :: "jsval list \<Rightarrow> descriptors" where
  "descriptorsOf [] = Typed []"
| "descriptorsOf (v # vs) =
     (if v = JNull \<or> v = JUndefined then Nullish
      else (case asExtensionData v of
              None \<Rightarrow> IllTyped
            | Some d \<Rightarrow>
                (case descriptorsOf vs of Typed ds \<Rightarrow> Typed (d # ds) | other \<Rightarrow> other)))"

fun elements :: "jsval \<Rightarrow> jsval list" where
  "elements (JArr xs) = xs"
| "elements v = []"

text \<open>A thrown value, and the text \<^verbatim>\<open>`${error}`\<close> prints for it (the engine's own
  wording of a \<^verbatim>\<open>TypeError\<close> is not modelled).\<close>

datatype exn = Error string | TypeError

fun showExn :: "exn \<Rightarrow> string" where
  "showExn (Error m) = ''Error: '' @ m"
| "showExn TypeError = ''TypeError''"

datatype message = InformationMessage string | WarningMessage string | ErrorMessage string

text \<open>
  The body of the \<^verbatim>\<open>try\<close> block. It returns what it threw or the text of its final
  message, together with the provider's array as it stands at that moment.
\<close>

definition loadFileTry ::
  "Host \<Rightarrow> string \<Rightarrow> ExtensionItem list \<Rightarrow> ((exn + string) \<times> ExtensionItem list) option" where
  "loadFileTry h fsPath extensions0 =
     (case readFileSync h fsPath of
        Inl m \<Rightarrow> Some (Inl (Error m), extensions0)
      | Inr fileContent \<Rightarrow>
     (case jsonc_parse h fileContent of
        Inl m \<Rightarrow> Some (Inl (Error m), extensions0)
      | Inr data \<Rightarrow>
     (case (if isArray data then Some data
            else map_option (\<lambda>v. if truthy v then v else JArr []) (getProp data ''extensions'')) of
        None \<Rightarrow> Some (Inl TypeError, extensions0)
      | Some extensions \<Rightarrow>
          if \<not> isArray extensions
          then Some (Inl (Error ''Invalid extensions file format''), extensions0)
          else
            (case descriptorsOf (elements extensions) of
               IllTyped \<Rightarrow> None
             | Nullish \<Rightarrow> Some (Inl TypeError, extensions0)
             | Typed ds \<Rightarrow>
                 (let extensions1 = loadExtensions ds extensions0;
                      settings = (case getProp data ''settings'' of None \<Rightarrow> JUndefined | Some v \<Rightarrow> v);
                      extensions2 =
                        (if truthy settings then addSettingsItem settings extensions1
                         else extensions1)
                  in Some (Inr (''Loaded '' @ showNat (length ds) @ '' extensions''
                                @ (if truthy settings then '' and settings'' else []) @ ''.''),
                           extensions2))))))"

text \<open>
  The command: nothing happens when the dialog returns no file; otherwise the
  \<^verbatim>\<open>try\<close> block runs and its \<^verbatim>\<open>catch\<close> shows the error. The result is the message
  shown and the provider's array afterwards; \<^term>\<open>None\<close> when the file's elements are
  not of the declared type.
\<close>

definition loadFileCommand ::
  "Host \<Rightarrow> string option \<Rightarrow> ExtensionItem list \<Rightarrow> (message option \<times> ExtensionItem list) option" where
  "loadFileCommand h uri extensions0 =
     (case uri of
        None \<Rightarrow> Some (None, extensions0)
      | Some fsPath \<Rightarrow>
          (case loadFileTry h fsPath extensions0 of
             None \<Rightarrow> None
           | Some (Inl error, extensions1) \<Rightarrow>
               Some (Some (ErrorMessage (''Error loading file: '' @ showExn error)), extensions1)
           | Some (Inr text, extensions1) \<Rightarrow> Some (Some (InformationMessage text), extensions1)))"

section \<open>Installing the selection (installSelectedCommand)\<close>

text \<open>
  What a run does to the outside, in the order it does it. A progress report carries its
  message (the increment, a floating-point fraction, is not carried).
\<close>

datatype event =
    OutputLine string
  | ProgressReport string
  | CancellationChecked nat
  | GetExtension nat string
  | Exec nat string
  | WriteFile string string
  | Shown message

text \<open>The state of a run: the provider's array, the two counters and the events so far.\<close>

record Run =
  extensions :: "ExtensionItem list"
  installedCount :: nat
  errorCount :: nat
  events :: "event list"

definition emit :: "event \<Rightarrow> Run \<Rightarrow> Run" where
  "emit e r = r\<lparr>events := events r @ [e]\<rparr>"

definition updateStatus :: "string \<Rightarrow> ExtensionStatus \<Rightarrow> string option \<Rightarrow> Run \<Rightarrow> Run" where
  "updateStatus i st msg r = r\<lparr>extensions := updateExtensionStatus i st msg (extensions r)\<rparr>"

definition getSettingsPath :: "Host \<Rightarrow> string" where
  "getSettingsPath h = path_join h (globalStoragePath h) ''../../settings.json''"

text \<open>
  \<^verbatim>\<open>installExtension\<close>, called in iteration \<open>i\<close>: the result
  \<^verbatim>\<open>{ success, error }\<close> is the error's message, \<^term>\<open>None\<close> for success.
\<close>

definition installCommand :: "string \<Rightarrow> string \<Rightarrow> string" where
  "installCommand cliPath extensionId = cliPath @ '' --install-extension '' @ extensionId"

definition installExtension :: "Host \<Rightarrow> nat \<Rightarrow> string \<Rightarrow> string \<Rightarrow> Run \<Rightarrow> string option \<times> Run" where
  "installExtension h i extensionId cliPath r =
     (let command = installCommand cliPath extensionId;
          r1 = emit (Exec i command) r;
          res = exec h i command
      in case error_message res of
           Some m \<Rightarrow>
             (let r2 = emit (OutputLine (''Error installing '' @ extensionId @ '': '' @ m)) r1;
                  r3 = (if stderr res \<noteq> [] then emit (OutputLine (''Stderr: '' @ stderr res)) r2
                        else r2)
              in (Some m, r3))
         | None \<Rightarrow>
             (None, if stdout res \<noteq> [] then emit (OutputLine (stdout res)) r1 else r1))"

text \<open>
  The current settings of the settings phase and the warning its inner \<^verbatim>\<open>catch\<close>
  logs: the empty object when the file is missing, cannot be read or cannot be parsed.
\<close>

definition readCurrentSettings :: "Host \<Rightarrow> jsval \<times> string option" where
  "readCurrentSettings h =
     (let settingsPath = getSettingsPath h in
      if existsSync h settingsPath then
        (case readFileSync h settingsPath of
           Inl m \<Rightarrow>
             (JObj [], Some (''Warning: Could not parse current settings.json: Error: '' @ m))
         | Inr currentContent \<Rightarrow>
             (case jsonc_parse h currentContent of
                Inl m \<Rightarrow>
                  (JObj [], Some (''Warning: Could not parse current settings.json: Error: '' @ m))
              | Inr v \<Rightarrow> (v, None)))
      else (JObj [], None))"

text \<open>\<^verbatim>\<open>{ ...currentSettings, ...settingsData }\<close>\<close>

definition mergeSettings :: "jsval \<Rightarrow> jsval \<Rightarrow> jsval" where
  "mergeSettings currentSettings sd = JObj (spreadInto (spreadInto [] currentSettings) sd)"

text \<open>The settings phase, entered with the selected settings item's data.\<close>

definition applySettings :: "Host \<Rightarrow> jsval \<Rightarrow> Run \<Rightarrow> Run" where
  "applySettings h sd r =
     (let r1 = emit (ProgressReport ''Applying Settings...'') r;
          settingsPath = getSettingsPath h;
          (currentSettings, warning) = readCurrentSettings h;
          r2 = (case warning of None \<Rightarrow> r1 | Some w \<Rightarrow> emit (OutputLine w) r1);
          newSettings = mergeSettings currentSettings sd;
          content = JSON_stringify h newSettings 4;
          r3 = emit (WriteFile settingsPath content) r2
      in case writeFileSync h settingsPath content of
           None \<Rightarrow>
             emit (OutputLine ''Successfully applied settings.'')
               (updateStatus ''settings'' Success None r3)
         | Some m \<Rightarrow>
             emit (OutputLine (''Failed to apply settings: '' @ m))
               (updateStatus ''settings'' Failed (Some m) r3))"

text \<open>
  Step 1 of the run: the settings phase is entered when a settings item is among the
  selected items and its data is truthy.
\<close>

definition settingsPhase :: "Host \<Rightarrow> ExtensionItem option \<Rightarrow> Run \<Rightarrow> Run" where
  "settingsPhase h settingsItem r =
     (case settingsItem of
        None \<Rightarrow> r
      | Some s \<Rightarrow> if truthy (settingsData s) then applySettings h (settingsData s) r else r)"

text \<open>
  One iteration of the extension loop after its cancellation check, for the item with
  the id \<open>extensionId\<close>: the already-installed query and its \<^verbatim>\<open>continue\<close>, or
  the install and the status it ends with.
\<close>

definition installStep :: "Host \<Rightarrow> string \<Rightarrow> nat \<Rightarrow> nat \<Rightarrow> string \<Rightarrow> Run \<Rightarrow> Run" where
  "installStep h cliPath total_n i extensionId r =
     (let r2 = emit (GetExtension i extensionId) r in
      if getExtension h i extensionId
      then updateStatus extensionId AlreadyInstalled None r2
      else
        (let r3 = emit (ProgressReport (''Installing '' @ extensionId @ '' (''
                     @ showNat (i + 1) @ ''/'' @ showNat total_n @ '')...'')) r2;
             r4 = updateStatus extensionId Installing None r3;
             r5 = emit (OutputLine (''Installing '' @ extensionId @ ''...'')) r4;
             result = installExtension h i extensionId cliPath r5;
             r6 = snd result
         in case fst result of
              None \<Rightarrow>
                emit (OutputLine (''Successfully installed '' @ extensionId))
                  (updateStatus extensionId Success None
                     (r6\<lparr>installedCount := installedCount r6 + 1\<rparr>))
            | Some m \<Rightarrow>
                emit (OutputLine (''Failed to install '' @ extensionId))
                  (updateStatus extensionId Failed (Some m)
                     (r6\<lparr>errorCount := errorCount r6 + 1\<rparr>))))"

text \<open>
  The extension loop, from iteration \<open>i\<close> on, over the ids of the items still to come
  (an item's id is read-only, so the ids are those read when the run started). The
  token is read at the head of every iteration; \<^verbatim>\<open>break\<close> leaves the loop.
\<close>

fun installLoop :: "Host \<Rightarrow> string \<Rightarrow> nat \<Rightarrow> nat \<Rightarrow> string list \<Rightarrow> Run \<Rightarrow> Run" where
  "installLoop h cliPath total_n i [] r = r"
| "installLoop h cliPath total_n i (extensionId # rest) r =
     (let r1 = emit (CancellationChecked i) r in
      if isCancellationRequested h i then emit (OutputLine ''Operation cancelled.'') r1
      else installLoop h cliPath total_n (Suc i) rest
             (installStep h cliPath total_n i extensionId r1))"

text \<open>The text of the final message.\<close>

definition summaryText :: "nat \<Rightarrow> bool \<Rightarrow> string" where
  "summaryText installed settingsSelected =
     ''Process complete. Installed: '' @ showNat installed @ '' extensions. Settings applied: ''
       @ (if settingsSelected then ''Yes'' else ''No'') @ ''.''"

definition installSelectedCommand :: "Host \<Rightarrow> ExtensionItem list \<Rightarrow> Run" where
  "installSelectedCommand h extensions0 =
     (let selectedItems = getSelectedExtensions extensions0;
          r0 = \<lparr>extensions = extensions0, installedCount = 0, errorCount = 0, events = []\<rparr>
      in if selectedItems = [] then emit (Shown (WarningMessage ''No items selected.'')) r0
         else
           (let cliPath = getCLIPath h;
                r1 = emit (OutputLine ''Starting installation...'') r0;
                settingsItem = find (\<lambda>item. item_id item = ''settings'') selectedItems;
                extensionItems = filter (\<lambda>item. item_id item \<noteq> ''settings'') selectedItems;
                r2 = settingsPhase h settingsItem r1;
                r3 = installLoop h cliPath (length extensionItems) 0
                       (map item_id extensionItems) r2
            in emit (Shown (InformationMessage
                       (summaryText (installedCount r3) (settingsItem \<noteq> None)))) r3))"

section \<open>Notions used to state the properties\<close>

subsection \<open>Sequences of store operations\<close>

text \<open>
  The operations of the provider that change its array, as values, so that a property can
  speak of every sequence of them. \<open>HandleCheckboxChange n state\<close> is
  \<^verbatim>\<open>handleCheckboxChange\<close> called with the item at index \<open>n\<close> of the array (the tree
  view only hands out items of the array); an index outside the array changes nothing.
  \<open>runOps\<close> runs a sequence from the empty array the provider starts with.
\<close>

datatype storeOp =
    LoadExtensions "ExtensionData list"
  | AddSettingsItem jsval
  | SelectAll
  | DeselectAll
  | HandleCheckboxChange nat CheckboxState
  | UpdateExtensionStatus string ExtensionStatus "string option"

fun applyOp :: "storeOp \<Rightarrow> ExtensionItem list \<Rightarrow> ExtensionItem list" where
  "applyOp (LoadExtensions ds) c = loadExtensions ds c"
| "applyOp (AddSettingsItem sd) c = addSettingsItem sd c"
| "applyOp SelectAll c = selectAll c"
| "applyOp DeselectAll c = deselectAll c"
| "applyOp (HandleCheckboxChange n state) c =
     (if n < length c then c[n := handleCheckboxChange (c ! n) state] else c)"
| "applyOp (UpdateExtensionStatus i st msg) c = updateExtensionStatus i st msg c"

definition runOps :: "storeOp list \<Rightarrow> ExtensionItem list" where
  "runOps ops = fold applyOp ops []"

text \<open>An operation that loads no descriptor carrying the reserved id \<^verbatim>\<open>settings\<close>.\<close>

fun loadsNoSettingsId :: "storeOp \<Rightarrow> bool" where
  "loadsNoSettingsId (LoadExtensions ds) = (''settings'' \<notin> set (map id_str ds))"
| "loadsNoSettingsId other = True"

text \<open>The checkbox of an item shows its selection.\<close>

definition checkboxOk :: "ExtensionItem \<Rightarrow> bool" where
  "checkboxOk e = ((checkboxState e = Checked) = selected e)"

subsection \<open>Items and steps of a run\<close>

text \<open>
  The item \<^verbatim>\<open>updateExtensionStatus\<close> finds for an id: the first one carrying it, which
  is the only one when the ids of the array are distinct.
\<close>

definition itemById :: "string \<Rightarrow> ExtensionItem list \<Rightarrow> ExtensionItem option" where
  "itemById i c = find (\<lambda>e. item_id e = i) c"

definition terminal :: "ExtensionStatus \<Rightarrow> bool" where
  "terminal st = (st = Success \<or> st = Failed \<or> st = AlreadyInstalled)"

text \<open>
  The ids the extension loop runs over, in its order: those of the selected items other
  than the settings item. \<open>selectedSettingsItem\<close> is the settings item of the
  selection, if it has one.
\<close>

definition extensionIds :: "ExtensionItem list \<Rightarrow> string list" where
  "extensionIds c =
     map item_id (filter (\<lambda>item. item_id item \<noteq> ''settings'') (getSelectedExtensions c))"

definition selectedSettingsItem :: "ExtensionItem list \<Rightarrow> ExtensionItem option" where
  "selectedSettingsItem c = find (\<lambda>item. item_id item = ''settings'') (getSelectedExtensions c)"

text \<open>The state in which a run with a non-empty selection enters its settings phase.\<close>

definition startRun :: "ExtensionItem list \<Rightarrow> Run" where
  "startRun c = emit (OutputLine ''Starting installation...'')
      \<lparr>extensions = c, installedCount = 0, errorCount = 0, events = []\<rparr>"

text \<open>The text the settings phase writes for the settings data \<open>sd\<close>.\<close>

definition settingsContent :: "Host \<Rightarrow> jsval \<Rightarrow> string" where
  "settingsContent h sd = JSON_stringify h (mergeSettings (fst (readCurrentSettings h)) sd) 4"

text \<open>
  The three kinds of event by which the loop meets its collaborators: reading the token,
  asking the host whether an extension is installed, and starting the install.
  \<open>stepEvents\<close> is what one iteration that was not cancelled shows of them,
  \<open>stepTrace\<close> what the whole loop shows, and \<open>stepStatus\<close> the status and error
  message an iteration leaves on its item.
\<close>

fun isStepEvent :: "event \<Rightarrow> bool" where
  "isStepEvent (CancellationChecked i) = True"
| "isStepEvent (GetExtension i x) = True"
| "isStepEvent (Exec i c) = True"
| "isStepEvent e = False"

definition stepEvents :: "Host \<Rightarrow> string \<Rightarrow> nat \<Rightarrow> string \<Rightarrow> event list" where
  "stepEvents h cliPath i x =
     GetExtension i x # (if getExtension h i x then [] else [Exec i (installCommand cliPath x)])"

fun stepTrace :: "Host \<Rightarrow> string \<Rightarrow> nat \<Rightarrow> string list \<Rightarrow> event list" where
  "stepTrace h cliPath i [] = []"
| "stepTrace h cliPath i (x # rest) =
     CancellationChecked i #
       (if isCancellationRequested h i then []
        else stepEvents h cliPath i x @ stepTrace h cliPath (Suc i) rest)"

definition stepStatus :: "Host \<Rightarrow> string \<Rightarrow> nat \<Rightarrow> string \<Rightarrow> ExtensionStatus \<times> string option" where
  "stepStatus h cliPath i x =
     (if getExtension h i x then (AlreadyInstalled, None)
      else (case error_message (exec h i (installCommand cliPath x)) of
              None \<Rightarrow> (Success, None)
            | Some m \<Rightarrow> (Failed, Some m)))"

subsection \<open>The resolver as the specification words it\<close>


section \<open>Example inputs\<close>

text \<open>
  A host whose editor is Cursor, installed under \<^verbatim>\<open>/app\<close>, with no override
  configured: every file exists, the settings file parses to \<^verbatim>\<open>{a:1,b:2}\<close>, writing
  succeeds, nobody cancels, the extension \<^verbatim>\<open>pub.b\<close> is installed already, and the
  install started in iteration 2 fails. Its \<open>JSON_stringify\<close> prints the keys of an
  object one after the other, which is enough to tell the written objects apart.
\<close>

definition exampleHost :: Host where
  "exampleHost =
     \<lparr>cliCommand_cfg = None, appRoot = ''/app'', appName = Some ''Cursor'',
      globalStoragePath = ''/user/globalStorage/ext'',
      path_join = (\<lambda>a b. a @ ''/'' @ b),
      existsSync = (\<lambda>p. True),
      readdirSync = (\<lambda>p. Inr [''code'', ''code-tunnel'', ''.hidden'', ''cursor'']),
      readFileSync = (\<lambda>p. Inr []),
      writeFileSync = (\<lambda>p content. None),
      jsonc_parse = (\<lambda>s. Inr (JObj [(''a'', JNum 1), (''b'', JNum 2)])),
      JSON_stringify = (\<lambda>v n. concat (map fst (ownProps v))),
      isCancellationRequested = (\<lambda>i. False),
      getExtension = (\<lambda>i x. x = ''pub.b''),
      exec = (\<lambda>i command.
        \<lparr>error_message = (if i = 2 then Some ''exit code 1'' else None),
         stdout = [], stderr = []\<rparr>)\<rparr>"

text \<open>The host with cancellation requested from iteration \<open>k\<close> on.\<close>

definition cancelAt :: "nat \<Rightarrow> Host \<Rightarrow> Host" where
  "cancelAt k h = h\<lparr>isCancellationRequested := (\<lambda>i. k \<le> i)\<rparr>"



definition parsedAs :: "jsval \<Rightarrow> Host" where
  "parsedAs data = exampleHost\<lparr>jsonc_parse := (\<lambda>s. Inr data)\<rparr>"

text \<open>A descriptor with an id only, the item built from it, and two collections.\<close>

definition descriptor :: "string \<Rightarrow> ExtensionData" where
  "descriptor i =
     \<lparr>id_str = i, displayName = None, description = None, version = None, publisher = None\<rparr>"

definition exampleItem :: "string \<Rightarrow> ExtensionItem" where
  "exampleItem i = newExtensionItem (descriptor i) JUndefined"

definition threeItems :: "ExtensionItem list" where
  "threeItems = [exampleItem ''pub.a'', exampleItem ''pub.b'', exampleItem ''pub.c'']"


section \<open>Lemmas\<close>

subsection \<open>Items and their ids\<close>

lemma newExtensionItem_fields:
  "extensionData (newExtensionItem d sd) = d"
  "status (newExtensionItem d sd) = Pending"
  "selected (newExtensionItem d sd) = True"
  "checkboxState (newExtensionItem d sd) = Checked"
  "errorMessage (newExtensionItem d sd) = None"
  "settingsData (newExtensionItem d sd) = sd"
  by (simp_all add: newExtensionItem_def updateCheckbox_def Let_def)

lemma item_id_new: "item_id (newExtensionItem d sd) = id_str d"
  by (simp add: item_id_def newExtensionItem_fields)

lemma item_id_updateIcon [simp]: "item_id (updateIcon e) = item_id e"
  by (simp add: item_id_def updateIcon_def split: ExtensionStatus.split)

lemma item_id_updates [simp]:
  "item_id (e\<lparr>status := st\<rparr>) = item_id e"
  "item_id (e\<lparr>errorMessage := m\<rparr>) = item_id e"
  "item_id (e\<lparr>selected := b\<rparr>) = item_id e"
  by (simp_all add: item_id_def)

lemma ids_updateExtensionStatus [simp]:
  "map item_id (updateExtensionStatus i st m c) = map item_id c"
  by (induction c) auto

lemma updateIcon_keeps:
  "selected (updateIcon e) = selected e"
  "checkboxState (updateIcon e) = checkboxState e"
  "extensionData (updateIcon e) = extensionData e"
  "settingsData (updateIcon e) = settingsData e"
  "status (updateIcon e) = status e"
  "errorMessage (updateIcon e) = errorMessage e"
  by (simp_all add: updateIcon_def split: ExtensionStatus.split)

lemma itemById_update:
  "itemById x (updateExtensionStatus y st m c) =
     (if x = y then map_option (\<lambda>e. updateIcon (e\<lparr>status := st, errorMessage := m\<rparr>)) (itemById x c)
      else itemById x c)"
  by (induction c) (auto simp: itemById_def)

lemma itemById_Some_iff_mem:
  "distinct (map item_id c) \<Longrightarrow> e \<in> set c \<Longrightarrow> itemById (item_id e) c = Some e"
  by (induction c) (auto simp: itemById_def)


subsection \<open>The state of a run\<close>

lemma emit_simps [simp]:
  "extensions (emit e r) = extensions r"
  "installedCount (emit e r) = installedCount r"
  "errorCount (emit e r) = errorCount r"
  "events (emit e r) = events r @ [e]"
  by (simp_all add: emit_def)

lemma updateStatus_simps [simp]:
  "extensions (updateStatus i st m r) = updateExtensionStatus i st m (extensions r)"
  "installedCount (updateStatus i st m r) = installedCount r"
  "errorCount (updateStatus i st m r) = errorCount r"
  "events (updateStatus i st m r) = events r"
  by (simp_all add: updateStatus_def)

lemma installExtension_fst:
  "fst (installExtension h i x cli r) = error_message (exec h i (installCommand cli x))"
  by (simp add: installExtension_def Let_def split: option.split)

lemma installExtension_snd [simp]:
  "extensions (snd (installExtension h i x cli r)) = extensions r"
  "installedCount (snd (installExtension h i x cli r)) = installedCount r"
  "errorCount (snd (installExtension h i x cli r)) = errorCount r"
  by (simp_all add: installExtension_def Let_def split: option.split)

lemma installExtension_events:
  "filter isStepEvent (events (snd (installExtension h i x cli r)))
     = filter isStepEvent (events r) @ [Exec i (installCommand cli x)]"
  by (simp add: installExtension_def Let_def split: option.split)

subsection \<open>One iteration of the loop\<close>

lemma installStep_extensions:
  "extensions (installStep h cli t i x r) =
     (if getExtension h i x then updateExtensionStatus x AlreadyInstalled None (extensions r)
      else updateExtensionStatus x (fst (stepStatus h cli i x)) (snd (stepStatus h cli i x))
             (updateExtensionStatus x Installing None (extensions r)))"
  by (simp add: installStep_def Let_def stepStatus_def installExtension_fst split: option.split)

lemma installStep_events:
  "filter isStepEvent (events (installStep h cli t i x r))
     = filter isStepEvent (events r) @ stepEvents h cli i x"
  by (simp add: installStep_def Let_def stepEvents_def installExtension_events split: option.split)

lemma installStep_installedCount:
  "installedCount (installStep h cli t i x r) =
     installedCount r + (if fst (stepStatus h cli i x) = Success then 1 else 0)"
  by (simp add: installStep_def Let_def stepStatus_def installExtension_fst split: option.split)

lemma installStep_ids [simp]:
  "map item_id (extensions (installStep h cli t i x r)) = map item_id (extensions r)"
  by (simp add: installStep_extensions)

lemma installStep_other:
  "y \<noteq> x \<Longrightarrow> itemById y (extensions (installStep h cli t i x r)) = itemById y (extensions r)"
  by (simp add: installStep_extensions itemById_update)

lemma installStep_self:
  assumes "itemById x (extensions r) = Some e"
  shows "\<exists>e'. itemById x (extensions (installStep h cli t i x r)) = Some e'
           \<and> status e' = fst (stepStatus h cli i x)
           \<and> errorMessage e' = snd (stepStatus h cli i x)
           \<and> extensionData e' = extensionData e \<and> selected e' = selected e"
proof (cases "getExtension h i x")
  case True
  then have "stepStatus h cli i x = (AlreadyInstalled, None)" by (simp add: stepStatus_def)
  then show ?thesis using assms True
    by (simp add: installStep_extensions itemById_update updateIcon_keeps)
next
  case False
  then show ?thesis using assms
    by (simp add: installStep_extensions itemById_update updateIcon_keeps)
qed

subsection \<open>The loop\<close>

lemma installLoop_Cons:
  "installLoop h cli t i (x # rest) r =
     (if isCancellationRequested h i
      then emit (OutputLine ''Operation cancelled.'') (emit (CancellationChecked i) r)
      else installLoop h cli t (Suc i) rest (installStep h cli t i x (emit (CancellationChecked i) r)))"
  by (simp add: Let_def)

lemma installLoop_ids:
  "map item_id (extensions (installLoop h cli t i ids r)) = map item_id (extensions r)"
  by (induction ids arbitrary: i r) (simp_all add: installLoop_Cons del: installLoop.simps(2))

lemma installLoop_frame:
  "y \<notin> set ids \<Longrightarrow> itemById y (extensions (installLoop h cli t i ids r)) = itemById y (extensions r)"
  by (induction ids arbitrary: i r)
     (simp_all add: installLoop_Cons installStep_other del: installLoop.simps(2))

lemma installLoop_events:
  "filter isStepEvent (events (installLoop h cli t i ids r))
     = filter isStepEvent (events r) @ stepTrace h cli i ids"
  by (induction ids arbitrary: i r)
     (simp_all add: installLoop_Cons installStep_events del: installLoop.simps(2))

lemma installLoop_split:
  "\<forall>j<k. \<not> isCancellationRequested h (i + j) \<Longrightarrow> k \<le> length ids \<Longrightarrow>
   installLoop h cli t i ids r
     = installLoop h cli t (i + k) (drop k ids) (installLoop h cli t i (take k ids) r)"
proof (induction ids arbitrary: i k r)
  case Nil
  then show ?case by simp
next
  case (Cons x rest)
  show ?case
  proof (cases k)
    case 0
    then show ?thesis by simp
  next
    case (Suc k')
    have nc: "\<not> isCancellationRequested h i" using Cons.prems(1) Suc by force
    have "\<forall>j<k'. \<not> isCancellationRequested h (Suc i + j)"
      using Cons.prems(1) Suc by (metis Suc_less_eq add_Suc_shift)
    moreover have "k' \<le> length rest" using Cons.prems(2) Suc by simp
    ultimately have IH: "installLoop h cli t (Suc i) rest r'
        = installLoop h cli t (Suc i + k') (drop k' rest) (installLoop h cli t (Suc i) (take k' rest) r')"
      for r' by (rule Cons.IH)
    show ?thesis using nc Suc IH[of "installStep h cli t i x (emit (CancellationChecked i) r)"]
      by (simp add: installLoop_Cons del: installLoop.simps(2))
  qed
qed

lemma installLoop_statuses:
  assumes "distinct ids" "\<forall>j<length ids. \<not> isCancellationRequested h (i + j)"
    and "j < length ids" "itemById (ids ! j) (extensions r) = Some e"
  shows "\<exists>e'. itemById (ids ! j) (extensions (installLoop h cli t i ids r)) = Some e'
           \<and> status e' = fst (stepStatus h cli (i + j) (ids ! j))
           \<and> errorMessage e' = snd (stepStatus h cli (i + j) (ids ! j))
           \<and> extensionData e' = extensionData e \<and> selected e' = selected e"
  using assms
proof (induction ids arbitrary: i j r)
  case Nil
  then show ?case by simp
next
  case (Cons x rest)
  have nc: "\<not> isCancellationRequested h i" using Cons.prems(2) by force
  let ?r1 = "installStep h cli t i x (emit (CancellationChecked i) r)"
  have loop: "installLoop h cli t i (x # rest) r = installLoop h cli t (Suc i) rest ?r1"
    using nc by (simp add: installLoop_Cons del: installLoop.simps(2))
  show ?case
  proof (cases j)
    case 0
    have "x \<notin> set rest" using Cons.prems(1) by simp
    then have "itemById x (extensions (installLoop h cli t (Suc i) rest ?r1))
        = itemById x (extensions ?r1)"
      by (rule installLoop_frame)
    moreover have "itemById x (extensions (emit (CancellationChecked i) r)) = Some e"
      using Cons.prems(4) 0 by simp
    ultimately show ?thesis
      using installStep_self[of x "emit (CancellationChecked i) r" e h cli t i] 0 loop
      by simp
  next
    case (Suc j')
    have neq: "rest ! j' \<noteq> x" using Cons.prems(1,3) Suc by auto
    have "itemById (rest ! j') (extensions ?r1) = Some e"
      using Cons.prems(4) Suc neq by (simp add: installStep_other)
    moreover have "distinct rest" using Cons.prems(1) by simp
    moreover have "\<forall>j<length rest. \<not> isCancellationRequested h (Suc i + j)"
      using Cons.prems(2) by (metis Suc_less_eq add_Suc_shift length_Cons)
    moreover have "j' < length rest" using Cons.prems(3) Suc by simp
    ultimately have "\<exists>e'. itemById (rest ! j') (extensions (installLoop h cli t (Suc i) rest ?r1)) = Some e'
           \<and> status e' = fst (stepStatus h cli (Suc i + j') (rest ! j'))
           \<and> errorMessage e' = snd (stepStatus h cli (Suc i + j') (rest ! j'))
           \<and> extensionData e' = extensionData e \<and> selected e' = selected e"
      by (intro Cons.IH)
    then show ?thesis using Suc loop by simp
  qed
qed

subsection \<open>The settings phase\<close>

lemma terminal_stepStatus: "terminal (fst (stepStatus h cli i x))"
  by (simp add: stepStatus_def terminal_def split: option.split)

lemma applySettings_extensions:
  "extensions (applySettings h sd r) =
     (case writeFileSync h (getSettingsPath h) (settingsContent h sd) of
        None \<Rightarrow> updateExtensionStatus ''settings'' Success None (extensions r)
      | Some m \<Rightarrow> updateExtensionStatus ''settings'' Failed (Some m) (extensions r))"
  by (simp add: applySettings_def settingsContent_def Let_def split: prod.split option.split)

lemma applySettings_counts [simp]:
  "installedCount (applySettings h sd r) = installedCount r"
  by (simp add: applySettings_def Let_def split: prod.split option.split)

lemma applySettings_events:
  "filter isStepEvent (events (applySettings h sd r)) = filter isStepEvent (events r)"
  by (simp add: applySettings_def Let_def split: prod.split option.split)


lemma settingsPhase_other:
  "x \<noteq> ''settings'' \<Longrightarrow> itemById x (extensions (settingsPhase h si r)) = itemById x (extensions r)"
  by (simp add: settingsPhase_def applySettings_extensions itemById_update split: option.split)

lemma settingsPhase_ids [simp]:
  "map item_id (extensions (settingsPhase h si r)) = map item_id (extensions r)"
  by (simp add: settingsPhase_def applySettings_extensions split: option.split)

lemma settingsPhase_counts [simp]:
  "installedCount (settingsPhase h si r) = installedCount r"
  by (simp add: settingsPhase_def split: option.split)

lemma settingsPhase_events:
  "filter isStepEvent (events (settingsPhase h si r)) = filter isStepEvent (events r)"
  by (simp add: settingsPhase_def applySettings_events split: option.split)

lemma startRun_simps [simp]:
  "extensions (startRun c) = c" "installedCount (startRun c) = 0"
  "filter isStepEvent (events (startRun c)) = []"
  by (simp_all add: startRun_def)

subsection \<open>The whole run\<close>

lemma extensionIds_nonempty: "extensionIds c \<noteq> [] \<Longrightarrow> getSelectedExtensions c \<noteq> []"
  by (auto simp: extensionIds_def)

lemma installSelectedCommand_run:
  assumes "getSelectedExtensions c \<noteq> []"
  shows "installSelectedCommand h c =
     (let r3 = installLoop h (getCLIPath h) (length (extensionIds c)) 0 (extensionIds c)
                 (settingsPhase h (selectedSettingsItem c) (startRun c))
      in emit (Shown (InformationMessage
                 (summaryText (installedCount r3) (selectedSettingsItem c \<noteq> None)))) r3)"
  using assms
  by (simp add: installSelectedCommand_def Let_def extensionIds_def selectedSettingsItem_def
        startRun_def)

lemma extensionIds_distinct: "distinct (map item_id c) \<Longrightarrow> distinct (extensionIds c)"
  by (simp add: extensionIds_def getSelectedExtensions_def distinct_map_filter)

lemma extensionIds_not_settings: "''settings'' \<notin> set (extensionIds c)"
  by (auto simp: extensionIds_def)

lemma extensionIds_item:
  assumes "distinct (map item_id c)" "j < length (extensionIds c)"
  shows "\<exists>e. itemById (extensionIds c ! j) c = Some e \<and> selected e \<and> item_id e = extensionIds c ! j"
proof -
  let ?sel = "filter (\<lambda>item. item_id item \<noteq> ''settings'') (getSelectedExtensions c)"
  have j: "j < length ?sel" using assms(2) by (simp add: extensionIds_def)
  then have m: "?sel ! j \<in> set ?sel" by (rule nth_mem)
  then have "?sel ! j \<in> set c" "selected (?sel ! j)" by (auto simp: getSelectedExtensions_def)
  moreover have "extensionIds c ! j = item_id (?sel ! j)" using j by (simp add: extensionIds_def)
  ultimately show ?thesis using itemById_Some_iff_mem[OF assms(1)] by auto
qed

lemma installLoop_processed:
  assumes "distinct ids" "j < length ids" "\<forall>j'\<le>j. \<not> isCancellationRequested h (i + j')"
    and "itemById (ids ! j) (extensions r) = Some e"
  shows "\<exists>e'. itemById (ids ! j) (extensions (installLoop h cli t i ids r)) = Some e'
           \<and> status e' = fst (stepStatus h cli (i + j) (ids ! j))
           \<and> errorMessage e' = snd (stepStatus h cli (i + j) (ids ! j))
           \<and> extensionData e' = extensionData e \<and> selected e' = selected e"
proof -
  let ?k = "Suc j"
  let ?r' = "installLoop h cli t i (take ?k ids) r"
  have nc: "\<forall>j'<?k. \<not> isCancellationRequested h (i + j')" using assms(3) by (simp add: less_Suc_eq_le)
  have k: "?k \<le> length ids" using assms(2) by simp
  have split: "installLoop h cli t i ids r = installLoop h cli t (i + ?k) (drop ?k ids) ?r'"
    using nc k by (rule installLoop_split)
  have "ids ! j \<notin> set (drop ?k ids)"
    using assms(1,2) by (metis Cons_nth_drop_Suc append_take_drop_id distinct.simps(2) distinct_append)
  then have frame: "itemById (ids ! j) (extensions (installLoop h cli t i ids r))
      = itemById (ids ! j) (extensions ?r')"
    unfolding split by (rule installLoop_frame)
  have "distinct (take ?k ids)" using assms(1) by simp
  moreover have "\<forall>j'<length (take ?k ids). \<not> isCancellationRequested h (i + j')"
    using nc by simp
  moreover have "j < length (take ?k ids)" using assms(2) by simp
  moreover have "itemById (take ?k ids ! j) (extensions r) = Some e" using assms(4) by simp
  ultimately have "\<exists>e'. itemById (take ?k ids ! j) (extensions ?r') = Some e'
           \<and> status e' = fst (stepStatus h cli (i + j) (take ?k ids ! j))
           \<and> errorMessage e' = snd (stepStatus h cli (i + j) (take ?k ids ! j))
           \<and> extensionData e' = extensionData e \<and> selected e' = selected e"
    by (rule installLoop_statuses)
  then show ?thesis unfolding frame by simp
qed

lemma installLoop_untouched:
  assumes "distinct ids" "k < length ids" "\<forall>j<k. \<not> isCancellationRequested h (i + j)"
    and "isCancellationRequested h (i + k)"
  shows "extensions (installLoop h cli t i ids r) = extensions (installLoop h cli t i (take k ids) r)"
    and "installedCount (installLoop h cli t i ids r)
           = installedCount (installLoop h cli t i (take k ids) r)"
    and "events (installLoop h cli t i ids r)
           = events (installLoop h cli t i (take k ids) r)
             @ [CancellationChecked (i + k), OutputLine ''Operation cancelled.'']"
proof -
  have split: "installLoop h cli t i ids r
      = installLoop h cli t (i + k) (drop k ids) (installLoop h cli t i (take k ids) r)"
    using assms(2,3) by (intro installLoop_split) auto
  obtain x rest where d: "drop k ids = x # rest"
    using assms(2) by (metis Cons_nth_drop_Suc)
  show "extensions (installLoop h cli t i ids r) = extensions (installLoop h cli t i (take k ids) r)"
    and "installedCount (installLoop h cli t i ids r)
           = installedCount (installLoop h cli t i (take k ids) r)"
    and "events (installLoop h cli t i ids r)
           = events (installLoop h cli t i (take k ids) r)
             @ [CancellationChecked (i + k), OutputLine ''Operation cancelled.'']"
    unfolding split d using assms(4) by (simp_all add: installLoop_Cons del: installLoop.simps(2))
qed

lemma stepTrace_cancelled:
  assumes "k < length ids" "\<forall>j<k. \<not> isCancellationRequested h (i + j)"
    and "isCancellationRequested h (i + k)"
  shows "stepTrace h cli i ids =
     concat (map (\<lambda>j. CancellationChecked (i + j) # stepEvents h cli (i + j) (ids ! j)) [0..<k])
       @ [CancellationChecked (i + k)]"
  using assms
proof (induction ids arbitrary: i k)
  case Nil
  then show ?case by simp
next
  case (Cons x rest)
  show ?case
  proof (cases k)
    case 0
    then show ?thesis using Cons.prems by simp
  next
    case (Suc k')
    have nc: "\<not> isCancellationRequested h i" using Cons.prems(2) Suc by force
    have "k' < length rest" using Cons.prems(1) Suc by simp
    moreover have "\<forall>j<k'. \<not> isCancellationRequested h (Suc i + j)"
      using Cons.prems(2) Suc by (metis Suc_less_eq add_Suc_shift)
    moreover have "isCancellationRequested h (Suc i + k')" using Cons.prems(3) Suc by simp
    ultimately have IH: "stepTrace h cli (Suc i) rest =
       concat (map (\<lambda>j. CancellationChecked (Suc i + j) # stepEvents h cli (Suc i + j) (rest ! j)) [0..<k'])
         @ [CancellationChecked (Suc i + k')]"
      by (rule Cons.IH)
    have upt: "[0..<Suc k'] = 0 # map Suc [0..<k']"
      by (simp add: upt_conv_Cons map_Suc_upt del: upt_Suc)
    show ?thesis using nc Suc
      by (simp add: IH upt comp_def del: upt_Suc)
  qed
qed

lemma stepTrace_complete:
  assumes "\<forall>j<length ids. \<not> isCancellationRequested h (i + j)"
  shows "stepTrace h cli i ids =
     concat (map (\<lambda>j. CancellationChecked (i + j) # stepEvents h cli (i + j) (ids ! j)) [0..<length ids])"
  using assms
proof (induction ids arbitrary: i)
  case Nil
  then show ?case by simp
next
  case (Cons x rest)
  have nc: "\<not> isCancellationRequested h i" using Cons.prems by force
  have "\<forall>j<length rest. \<not> isCancellationRequested h (Suc i + j)"
    using Cons.prems by (metis Suc_less_eq add_Suc_shift length_Cons)
  then have IH: "stepTrace h cli (Suc i) rest =
       concat (map (\<lambda>j. CancellationChecked (Suc i + j) # stepEvents h cli (Suc i + j) (rest ! j)) [0..<length rest])"
    by (rule Cons.IH)
  have upt: "[0..<Suc (length rest)] = 0 # map Suc [0..<length rest]"
    by (simp add: upt_conv_Cons map_Suc_upt del: upt_Suc)
  show ?case using nc
    by (simp add: IH upt comp_def del: upt_Suc)
qed

lemma summaryText_1:
  "summaryText (Suc 0) b = ''Process complete. Installed: 1 extensions. Settings applied: ''
       @ (if b then ''Yes'' else ''No'') @ ''.''"
  by (simp add: summaryText_def showNat.simps digitChar_def)

lemma run_last:
  "getSelectedExtensions c \<noteq> [] \<Longrightarrow>
   last (events (installSelectedCommand h c))
     = Shown (InformationMessage (summaryText (installedCount (installSelectedCommand h c))
          (selectedSettingsItem c \<noteq> None)))"
  by (simp add: installSelectedCommand_run Let_def)

lemma run_extensions:
  "getSelectedExtensions c \<noteq> [] \<Longrightarrow>
   extensions (installSelectedCommand h c)
     = extensions (installLoop h (getCLIPath h) (length (extensionIds c)) 0 (extensionIds c)
                 (settingsPhase h (selectedSettingsItem c) (startRun c)))"
  by (simp add: installSelectedCommand_run Let_def)

lemma run_installedCount:
  "getSelectedExtensions c \<noteq> [] \<Longrightarrow>
   installedCount (installSelectedCommand h c)
     = installedCount (installLoop h (getCLIPath h) (length (extensionIds c)) 0 (extensionIds c)
                 (settingsPhase h (selectedSettingsItem c) (startRun c)))"
  by (simp add: installSelectedCommand_run Let_def)

lemma run_step_events:
  "getSelectedExtensions c \<noteq> [] \<Longrightarrow>
   filter isStepEvent (events (installSelectedCommand h c))
     = stepTrace h (getCLIPath h) 0 (extensionIds c)"
  by (simp add: installSelectedCommand_run Let_def installLoop_events settingsPhase_events)

lemma run_processed:
  assumes "distinct (map item_id c)" "j < length (extensionIds c)"
    and "\<forall>j'\<le>j. \<not> isCancellationRequested h j'"
  shows "\<exists>e. itemById (extensionIds c ! j) (extensions (installSelectedCommand h c)) = Some e
           \<and> status e = fst (stepStatus h (getCLIPath h) j (extensionIds c ! j))
           \<and> errorMessage e = snd (stepStatus h (getCLIPath h) j (extensionIds c ! j))"
proof -
  have "extensionIds c \<noteq> []" using assms(2) by auto
  then have ne: "getSelectedExtensions c \<noteq> []" by (rule extensionIds_nonempty)
  obtain e where e: "itemById (extensionIds c ! j) c = Some e"
    using extensionIds_item[OF assms(1,2)] by blast
  have "extensionIds c ! j \<noteq> ''settings''"
    using extensionIds_not_settings[of c] assms(2) nth_mem by metis
  then have "itemById (extensionIds c ! j)
      (extensions (settingsPhase h (selectedSettingsItem c) (startRun c))) = Some e"
    using e by (simp add: settingsPhase_other)
  moreover have "\<forall>j'\<le>j. \<not> isCancellationRequested h (0 + j')" using assms(3) by simp
  ultimately have "\<exists>e'. itemById (extensionIds c ! j)
        (extensions (installLoop h (getCLIPath h) (length (extensionIds c)) 0 (extensionIds c)
                 (settingsPhase h (selectedSettingsItem c) (startRun c)))) = Some e'
           \<and> status e' = fst (stepStatus h (getCLIPath h) (0 + j) (extensionIds c ! j))
           \<and> errorMessage e' = snd (stepStatus h (getCLIPath h) (0 + j) (extensionIds c ! j))
           \<and> extensionData e' = extensionData e \<and> selected e' = selected e"
    using extensionIds_distinct[OF assms(1)] assms(2) by (intro installLoop_processed)
  then show ?thesis using ne by (auto simp: run_extensions)
qed

lemma threeItems_facts:
  "distinct (map item_id threeItems)"
  "extensionIds threeItems = [''pub.a'', ''pub.b'', ''pub.c'']"
  "selectedSettingsItem threeItems = None"
  by (simp_all add: threeItems_def exampleItem_def descriptor_def item_id_new extensionIds_def
        getSelectedExtensions_def newExtensionItem_fields selectedSettingsItem_def)

lemma run_cancelled:
  assumes "k < length (extensionIds c)" "\<forall>j<k. \<not> isCancellationRequested h j"
    and "isCancellationRequested h k" "distinct (map item_id c)"
  shows "extensions (installSelectedCommand h c)
           = extensions (installLoop h (getCLIPath h) (length (extensionIds c)) 0
               (take k (extensionIds c)) (settingsPhase h (selectedSettingsItem c) (startRun c)))"
    and "OutputLine ''Operation cancelled.'' \<in> set (events (installSelectedCommand h c))"
proof -
  have "extensionIds c \<noteq> []" using assms(1) by auto
  then have ne: "getSelectedExtensions c \<noteq> []" by (rule extensionIds_nonempty)
  have nc: "\<forall>j<k. \<not> isCancellationRequested h (0 + j)" using assms(2) by simp
  have ca: "isCancellationRequested h (0 + k)" using assms(3) by simp
  note u = installLoop_untouched[OF extensionIds_distinct[OF assms(4)] assms(1) nc ca]
  show "extensions (installSelectedCommand h c)
           = extensions (installLoop h (getCLIPath h) (length (extensionIds c)) 0
               (take k (extensionIds c)) (settingsPhase h (selectedSettingsItem c) (startRun c)))"
    using ne by (simp add: run_extensions u(1))
  show "OutputLine ''Operation cancelled.'' \<in> set (events (installSelectedCommand h c))"
    using ne by (simp add: installSelectedCommand_run Let_def u(3))
qed

lemma run_cancelled_facts:
  assumes "distinct (map item_id c)"
    and "k < length (extensionIds c)"
    and "\<forall>j<k. \<not> isCancellationRequested h j"
    and "isCancellationRequested h k"
  shows "filter isStepEvent (events (installSelectedCommand h c))
           = concat (map (\<lambda>j. CancellationChecked j # stepEvents h (getCLIPath h) j (extensionIds c ! j))
                      [0..<k])
             @ [CancellationChecked k]
       \<and> (\<forall>j<k. \<exists>e. itemById (extensionIds c ! j) (extensions (installSelectedCommand h c)) = Some e
                    \<and> terminal (status e))
       \<and> (\<forall>j. k \<le> j \<and> j < length (extensionIds c) \<longrightarrow>
              (\<exists>e. itemById (extensionIds c ! j) c = Some e
                 \<and> itemById (extensionIds c ! j) (extensions (installSelectedCommand h c)) = Some e))
       \<and> (\<forall>j command. Exec j command \<in> set (events (installSelectedCommand h c)) \<longrightarrow> j < k)
       \<and> OutputLine ''Operation cancelled.'' \<in> set (events (installSelectedCommand h c))
       \<and> last (events (installSelectedCommand h c))
           = Shown (InformationMessage
               (summaryText (installedCount (installSelectedCommand h c))
                  (selectedSettingsItem c \<noteq> None)))"
proof -
  let ?r = "installSelectedCommand h c"
  let ?ids = "extensionIds c"
  let ?cli = "getCLIPath h"
  have "?ids \<noteq> []" using assms(2) by auto
  then have ne: "getSelectedExtensions c \<noteq> []" by (rule extensionIds_nonempty)
  have nc: "\<forall>j<k. \<not> isCancellationRequested h (0 + j)" using assms(3) by simp
  have ca: "isCancellationRequested h (0 + k)" using assms(4) by simp
  have trace: "filter isStepEvent (events ?r)
      = concat (map (\<lambda>j. CancellationChecked j # stepEvents h ?cli j (?ids ! j)) [0..<k])
        @ [CancellationChecked k]"
    using stepTrace_cancelled[OF assms(2) nc ca, of ?cli] by (simp add: run_step_events[OF ne])
  have finished: "\<exists>e. itemById (?ids ! j) (extensions ?r) = Some e \<and> terminal (status e)"
    if "j < k" for j
  proof -
    have "j < length ?ids" using that assms(2) by simp
    moreover have "\<forall>j'\<le>j. \<not> isCancellationRequested h j'" using that assms(3) by simp
    ultimately show ?thesis
      using run_processed[OF assms(1), of j h] terminal_stepStatus[of h ?cli j "?ids ! j"] by auto
  qed
  have kept: "\<exists>e. itemById (?ids ! j) c = Some e \<and> itemById (?ids ! j) (extensions ?r) = Some e"
    if kj: "k \<le> j" and jl: "j < length (extensionIds c)" for j
  proof -
    obtain e where e: "itemById (?ids ! j) c = Some e"
      using extensionIds_item[OF assms(1) jl] by blast
    have "?ids ! j \<noteq> ''settings''"
      using extensionIds_not_settings[of c] jl nth_mem by metis
    then have s: "itemById (?ids ! j) (extensions (settingsPhase h (selectedSettingsItem c) (startRun c)))
        = Some e"
      using e by (simp add: settingsPhase_other)
    have "?ids ! j \<notin> set (take k ?ids)"
    proof
      assume "?ids ! j \<in> set (take k ?ids)"
      then obtain n where n: "n < length (take k ?ids)" "take k ?ids ! n = ?ids ! j"
        by (auto simp: in_set_conv_nth)
      then have "n < k" "n < length ?ids" "?ids ! n = ?ids ! j" by auto
      then have "n = j"
        using extensionIds_distinct[OF assms(1)] jl by (simp add: nth_eq_iff_index_eq)
      then show False using \<open>n < k\<close> kj by simp
    qed
    then have "itemById (?ids ! j) (extensions ?r) = Some e"
      using s by (simp add: run_cancelled(1)[OF assms(2,3,4,1)] installLoop_frame)
    then show ?thesis using e by simp
  qed
  have noexec: "j < k" if "Exec j command \<in> set (events ?r)" for j command
  proof -
    have "Exec j command \<in> set (filter isStepEvent (events ?r))" using that by simp
    then show ?thesis unfolding trace by (auto simp: stepEvents_def split: if_splits)
  qed
  show ?thesis
    using trace finished kept noexec run_cancelled(2)[OF assms(2,3,4,1)] run_last[OF ne, of h]
    by blast
qed





subsection \<open>Object spread\<close>












subsection \<open>The resolver\<close>











subsection \<open>Store operations\<close>

lemma item_id_updateCheckbox [simp]: "item_id (updateCheckbox e) = item_id e"
  by (simp add: item_id_def updateCheckbox_def)

lemma item_id_handleCheckboxChange [simp]: "item_id (handleCheckboxChange e s) = item_id e"
  by (simp add: handleCheckboxChange_def)

lemma length_updateExtensionStatus [simp]:
  "length (updateExtensionStatus i st m c) = length c"
  by (induction c) auto

lemma ids_selectAll [simp]: "map item_id (selectAll c) = map item_id c"
  by (simp add: selectAll_def comp_def)

lemma ids_deselectAll [simp]: "map item_id (deselectAll c) = map item_id c"
  by (simp add: deselectAll_def comp_def)

lemma ids_loadExtensions [simp]: "map item_id (loadExtensions ds c) = map id_str ds"
  by (simp add: loadExtensions_def comp_def item_id_new)

lemma ids_addSettingsItem:
  "map item_id (addSettingsItem sd c) = ''settings'' # filter (\<lambda>i. i \<noteq> ''settings'') (map item_id c)"
  by (simp add: addSettingsItem_def item_id_new settingsDescriptor_def filter_map comp_def)

lemma ids_list_update:
  "n < length c \<Longrightarrow> item_id e = item_id (c ! n) \<Longrightarrow> map item_id (c[n := e]) = map item_id c"
  by (simp add: map_update list_update_same_conv)

lemma updateExtensionStatus_absent:
  "i \<notin> set (map item_id c) \<Longrightarrow> updateExtensionStatus i st m c = c"
  by (induction c) auto

lemma updateExtensionStatus_first:
  "n < length c \<Longrightarrow> item_id (c ! n) = i \<Longrightarrow> \<forall>k<n. item_id (c ! k) \<noteq> i \<Longrightarrow>
   updateExtensionStatus i st m c = c[n := updateIcon ((c ! n)\<lparr>status := st, errorMessage := m\<rparr>)]"
proof (induction c arbitrary: n)
  case Nil
  then show ?case by simp
next
  case (Cons e es)
  show ?case
  proof (cases n)
    case 0
    then show ?thesis using Cons.prems by simp
  next
    case (Suc n')
    have "item_id e \<noteq> i" using Cons.prems(3) Suc by auto
    moreover have "updateExtensionStatus i st m es
        = es[n' := updateIcon ((es ! n')\<lparr>status := st, errorMessage := m\<rparr>)]"
      using Cons.prems Suc by (intro Cons.IH) auto
    ultimately show ?thesis using Suc by simp
  qed
qed

lemma updateIcon_shape:
  "updateIcon e = e\<lparr>iconPath := iconPath (updateIcon e), command := command (updateIcon e)\<rparr>"
  by (cases "status e") (simp_all add: updateIcon_def)

lemma selected_updateExtensionStatus:
  "map selected (updateExtensionStatus i st m c) = map selected c"
  by (induction c) (auto simp: updateIcon_keeps)

lemma checkboxState_updateExtensionStatus:
  "map checkboxState (updateExtensionStatus i st m c) = map checkboxState c"
  by (induction c) (auto simp: updateIcon_keeps)

lemma checkboxOk_new: "checkboxOk (newExtensionItem d sd)"
  by (simp add: checkboxOk_def newExtensionItem_fields)

lemma checkboxOk_updateCheckbox: "checkboxOk (updateCheckbox e)"
  by (simp add: checkboxOk_def updateCheckbox_def)

lemma checkboxOk_updateExtensionStatus:
  "list_all checkboxOk c \<Longrightarrow> list_all checkboxOk (updateExtensionStatus i st m c)"
  by (induction c) (auto simp: checkboxOk_def updateIcon_keeps)

lemma checkboxOk_applyOp: "list_all checkboxOk c \<Longrightarrow> list_all checkboxOk (applyOp op c)"
proof (cases op)
  case (LoadExtensions ds)
  then show ?thesis by (simp add: loadExtensions_def list_all_iff checkboxOk_new)
next
  case (AddSettingsItem sd)
  assume "list_all checkboxOk c"
  then show ?thesis using AddSettingsItem
    by (simp add: addSettingsItem_def list_all_iff checkboxOk_new)
next
  case SelectAll
  then show ?thesis by (simp add: selectAll_def list_all_iff checkboxOk_updateCheckbox)
next
  case DeselectAll
  then show ?thesis by (simp add: deselectAll_def list_all_iff checkboxOk_updateCheckbox)
next
  case (HandleCheckboxChange n state)
  assume a: "list_all checkboxOk c"
  have "checkboxOk (handleCheckboxChange (c ! n) state)"
    by (simp add: handleCheckboxChange_def checkboxOk_updateCheckbox)
  then show ?thesis using a HandleCheckboxChange
    by (auto simp: list_all_iff dest!: set_update_subset_insert[THEN subsetD])
next
  case (UpdateExtensionStatus i st m)
  assume "list_all checkboxOk c"
  then show ?thesis using UpdateExtensionStatus by (simp add: checkboxOk_updateExtensionStatus)
qed

lemma checkboxOk_fold:
  "list_all checkboxOk c \<Longrightarrow> list_all checkboxOk (fold applyOp ops c)"
  by (induction ops arbitrary: c) (simp_all add: checkboxOk_applyOp)

lemma ids_applyOp_other:
  "map item_id (applyOp SelectAll c) = map item_id c"
  "map item_id (applyOp DeselectAll c) = map item_id c"
  "map item_id (applyOp (HandleCheckboxChange n s) c) = map item_id c"
  "map item_id (applyOp (UpdateExtensionStatus i st m) c) = map item_id c"
  by (simp_all add: ids_list_update)

lemma set_tl_subset: "set (tl xs) \<subseteq> set xs"
  by (cases xs) auto

lemma settings_first_applyOp:
  assumes "''settings'' \<notin> set (tl (map item_id c))" "loadsNoSettingsId op"
  shows "''settings'' \<notin> set (tl (map item_id (applyOp op c)))"
proof (cases op)
  case (LoadExtensions ds)
  then show ?thesis using assms(2) set_tl_subset by fastforce
next
  case (AddSettingsItem sd)
  then show ?thesis by (simp add: ids_addSettingsItem)
qed (use assms(1) in \<open>simp_all add: ids_list_update\<close>)

lemma settings_first_fold:
  "''settings'' \<notin> set (tl (map item_id c)) \<Longrightarrow> list_all loadsNoSettingsId ops \<Longrightarrow>
   ''settings'' \<notin> set (tl (map item_id (fold applyOp ops c)))"
  by (induction ops arbitrary: c) (simp_all add: settings_first_applyOp)

lemma filter_addSettingsItem:
  "filter (\<lambda>e. item_id e \<noteq> ''settings'') (addSettingsItem p c)
     = filter (\<lambda>e. item_id e \<noteq> ''settings'') c"
  by (simp add: addSettingsItem_def item_id_new settingsDescriptor_def)

lemma fold_addSettingsItem:
  "ps \<noteq> [] \<Longrightarrow> fold addSettingsItem ps c =
     newExtensionItem settingsDescriptor (last ps) # filter (\<lambda>e. item_id e \<noteq> ''settings'') c"
proof (induction ps arbitrary: c)
  case Nil
  then show ?case by simp
next
  case (Cons p ps)
  show ?case
  proof (cases "ps = []")
    case True
    then show ?thesis by (simp add: addSettingsItem_def)
  next
    case False
    have "fold addSettingsItem (p # ps) c = fold addSettingsItem ps (addSettingsItem p c)"
      by simp
    also have "\<dots> = newExtensionItem settingsDescriptor (last ps)
          # filter (\<lambda>e. item_id e \<noteq> ''settings'') (addSettingsItem p c)"
      using False by (rule Cons.IH)
    also have "\<dots> = newExtensionItem settingsDescriptor (last (p # ps))
          # filter (\<lambda>e. item_id e \<noteq> ''settings'') c"
      using False by (simp add: filter_addSettingsItem)
    finally show ?thesis .
  qed
qed

subsection \<open>Loading a file\<close>

lemma loadFileTry_abort:
  "loadFileTry h p c = Some (Inl e, c') \<Longrightarrow> c' = c"
  by (auto simp: loadFileTry_def Let_def split: sum.splits option.splits if_splits descriptors.splits)

lemma loadFileCommand_abort:
  "loadFileCommand h uri c = Some (Some (ErrorMessage t), c') \<Longrightarrow> c' = c"
  by (auto simp: loadFileCommand_def split: option.splits sum.splits prod.splits
        dest: loadFileTry_abort)

lemma settings_first_explicit:
  assumes "''settings'' \<notin> set (tl (map item_id c))"
  shows "length (filter (\<lambda>e. item_id e = ''settings'') c) \<le> 1
     \<and> (\<forall>n<length c. item_id (c ! n) = ''settings'' \<longrightarrow> n = 0)"
proof (cases c)
  case Nil
  then show ?thesis by simp
next
  case (Cons e es)
  have no: "\<forall>x \<in> set es. item_id x \<noteq> ''settings''" using assms Cons by force
  then have "filter (\<lambda>e. item_id e = ''settings'') es = []" by (simp add: filter_empty_conv)
  moreover have "n = 0" if "n < length c" "item_id (c ! n) = ''settings''" for n
  proof (cases n)
    case 0
    then show ?thesis .
  next
    case (Suc n')
    then have "es ! n' \<in> set es" using that(1) Cons by simp
    then show ?thesis using no that(2) Cons Suc by auto
  qed
  ultimately show ?thesis using Cons by auto
qed

section \<open>The claims\<close>

subsection \<open>C1: three items, one installed already, one failing\<close>

text \<open>
  C1, as amended. Take a collection whose ids are pairwise distinct and whose selected
  extension items are exactly three, with the ids \<open>a\<close>, \<open>b\<close>, \<open>d\<close> in this
  order. If nobody cancels before any of the three iterations, the host reports the second
  item, and not the first or the third, as installed, the install of the first succeeds
  and the install of the third fails with the message \<open>m\<close>, then after the run the three
  items are Success, AlreadyInstalled and Failed in this order, the third carries \<open>m\<close>,
  the installed counter is 1, and the last thing the run does is to show the message
  \<^verbatim>\<open>Process complete. Installed: 1 extensions. Settings applied: Yes.\<close> (or
  \<^verbatim>\<open>No.\<close>), where \<^verbatim>\<open>Yes\<close> stands for a settings item among the selected items.
  The message names no number of items already installed.
\<close>

theorem C1_three_items:
  assumes "distinct (map item_id c)"
    and "extensionIds c = [a, b, d]"
    and "\<not> isCancellationRequested h 0" "\<not> isCancellationRequested h 1"
        "\<not> isCancellationRequested h 2"
    and "\<not> getExtension h 0 a" "getExtension h 1 b" "\<not> getExtension h 2 d"
    and "error_message (exec h 0 (installCommand (getCLIPath h) a)) = None"
    and "error_message (exec h 2 (installCommand (getCLIPath h) d)) = Some m"
  shows "map (\<lambda>x. map_option status (itemById x (extensions (installSelectedCommand h c)))) [a, b, d]
           = [Some Success, Some AlreadyInstalled, Some Failed]
       \<and> map_option errorMessage (itemById d (extensions (installSelectedCommand h c))) = Some (Some m)
       \<and> installedCount (installSelectedCommand h c) = 1
       \<and> last (events (installSelectedCommand h c))
           = Shown (InformationMessage
               (''Process complete. Installed: 1 extensions. Settings applied: ''
                  @ (if selectedSettingsItem c \<noteq> None then ''Yes'' else ''No'') @ ''.''))"
proof -
  let ?r = "installSelectedCommand h c"
  let ?cli = "getCLIPath h"
  have "extensionIds c \<noteq> []" using assms(2) by auto
  then have ne: "getSelectedExtensions c \<noteq> []" by (rule extensionIds_nonempty)
  have nc1: "\<not> isCancellationRequested h (Suc 0)" using assms(4) by simp
  have nc2: "\<not> isCancellationRequested h (Suc (Suc 0))" using assms(5) by (simp add: numeral_2_eq_2)
  have g1: "getExtension h (Suc 0) b" using assms(7) by simp
  have g2: "\<not> getExtension h (Suc (Suc 0)) d" using assms(8) by (simp add: numeral_2_eq_2)
  have e2: "error_message (exec h (Suc (Suc 0)) (installCommand ?cli d)) = Some m"
    using assms(10) by (simp add: numeral_2_eq_2)
  have nc: "\<forall>j'\<le>j. \<not> isCancellationRequested h j'" if "j < 3" for j
  proof (intro allI impI)
    fix j' assume "j' \<le> j"
    then have "j' = 0 \<or> j' = Suc 0 \<or> j' = Suc (Suc 0)" using that by auto
    then show "\<not> isCancellationRequested h j'" using assms(3) nc1 nc2 by auto
  qed
  have s0: "stepStatus h ?cli 0 a = (Success, None)"
    using assms(6,9) by (simp add: stepStatus_def)
  have s1: "stepStatus h ?cli (Suc 0) b = (AlreadyInstalled, None)"
    using g1 by (simp add: stepStatus_def)
  have s2: "stepStatus h ?cli (Suc (Suc 0)) d = (Failed, Some m)"
    using g2 e2 by (simp add: stepStatus_def)
  have p0: "\<exists>e. itemById a (extensions ?r) = Some e \<and> status e = Success"
    using run_processed[OF assms(1), of 0 h] nc[of 0] s0 by (auto simp add: assms(2))
  have p1: "\<exists>e. itemById b (extensions ?r) = Some e \<and> status e = AlreadyInstalled"
    using run_processed[OF assms(1), of "Suc 0" h] nc[of "Suc 0"] s1 by (auto simp add: assms(2))
  have p2: "\<exists>e. itemById d (extensions ?r) = Some e \<and> status e = Failed \<and> errorMessage e = Some m"
    using run_processed[OF assms(1), of "Suc (Suc 0)" h] nc[of "Suc (Suc 0)"] s2
    by (auto simp add: assms(2))
  have cnt: "installedCount ?r = 1"
    using ne assms(3) nc1 nc2 s0 s1 s2
    by (simp add: run_installedCount assms(2) installLoop_Cons installStep_installedCount
          del: installLoop.simps(2))
  have "last (events ?r) = Shown (InformationMessage (summaryText 1 (selectedSettingsItem c \<noteq> None)))"
    using run_last[OF ne, of h] cnt by simp
  then show ?thesis using p0 p1 p2 cnt by (auto simp: summaryText_1)
qed

text \<open>The theorem at the example host and the three example items.\<close>

theorem C1_three_items_witness:
  "map (\<lambda>x. map_option status (itemById x (extensions (installSelectedCommand exampleHost threeItems))))
       [''pub.a'', ''pub.b'', ''pub.c''] = [Some Success, Some AlreadyInstalled, Some Failed]
   \<and> map_option errorMessage (itemById ''pub.c'' (extensions (installSelectedCommand exampleHost threeItems)))
       = Some (Some ''exit code 1'')
   \<and> installedCount (installSelectedCommand exampleHost threeItems) = 1
   \<and> last (events (installSelectedCommand exampleHost threeItems))
       = Shown (InformationMessage ''Process complete. Installed: 1 extensions. Settings applied: No.'')"
  using C1_three_items[of threeItems "''pub.a''" "''pub.b''" "''pub.c''" exampleHost "''exit code 1''",
      OF threeItems_facts(1,2)]
  by (simp add: exampleHost_def threeItems_facts(3))

text \<open>
  Against C1 as stated. The run of the claim and a run over the single item
  \<^verbatim>\<open>pub.a\<close>, in which nothing is installed already and nothing fails, end with the
  same message: the summary does not report the numbers of items already installed and
  failed. And when the third selected item repeats the id of the first, the failure of
  the third is recorded on the first, and the third stays Pending.
\<close>

theorem C1_summary_counterexample:
  "last (events (installSelectedCommand exampleHost threeItems))
       = Shown (InformationMessage ''Process complete. Installed: 1 extensions. Settings applied: No.'')
   \<and> map status (extensions (installSelectedCommand exampleHost threeItems))
       = [Success, AlreadyInstalled, Failed]
   \<and> last (events (installSelectedCommand exampleHost [exampleItem ''pub.a'']))
       = Shown (InformationMessage ''Process complete. Installed: 1 extensions. Settings applied: No.'')
   \<and> map status (extensions (installSelectedCommand exampleHost [exampleItem ''pub.a'']))
       = [Success]
   \<and> map status (extensions (installSelectedCommand exampleHost
         [exampleItem ''pub.a'', exampleItem ''pub.b'', exampleItem ''pub.a'']))
       = [Failed, AlreadyInstalled, Pending]"
  by code_simp

subsection \<open>C2: cancellation\<close>

text \<open>
  C2, as amended. Take a collection whose ids are pairwise distinct, and let the ids of
  its selected extension items be \<open>extensionIds c\<close>. In a run that nobody cancels, the
  loop reads the token once at the head of each iteration and nowhere else: its events
  with the token, the host's query and the child process are, iteration by iteration, one
  read of the token, the query, and the install unless the host reported the extension
  as installed. If the token is first found raised at the head of iteration \<open>k\<close>
  (counting from 0, so before the item number \<open>k + 1\<close>), the same holds for the
  iterations before \<open>k\<close>, followed by the one read that found it raised; every item
  before \<open>k\<close> has a terminal status; every item from \<open>k\<close> on is the item it was
  before the run, so it keeps its status; no install was started in iteration \<open>k\<close> or
  later; the output channel holds the line \<^verbatim>\<open>Operation cancelled.\<close>; and the run
  ends with the same final message as any other run, made of the installed counter and of
  whether a settings item was selected, which says nothing of the cancellation.
\<close>

theorem C2_cancellation_between_steps:
  assumes "distinct (map item_id c)"
  shows "((\<forall>j<length (extensionIds c). \<not> isCancellationRequested h j) \<longrightarrow>
            filter isStepEvent (events (installSelectedCommand h c))
              = concat (map (\<lambda>j. CancellationChecked j
                                 # stepEvents h (getCLIPath h) j (extensionIds c ! j))
                          [0..<length (extensionIds c)]))
       \<and> (k < length (extensionIds c) \<and> (\<forall>j<k. \<not> isCancellationRequested h j)
            \<and> isCancellationRequested h k \<longrightarrow>
            filter isStepEvent (events (installSelectedCommand h c))
              = concat (map (\<lambda>j. CancellationChecked j
                                 # stepEvents h (getCLIPath h) j (extensionIds c ! j)) [0..<k])
                @ [CancellationChecked k]
          \<and> (\<forall>j<k. \<exists>e. itemById (extensionIds c ! j) (extensions (installSelectedCommand h c)) = Some e
                       \<and> terminal (status e))
          \<and> (\<forall>j. k \<le> j \<and> j < length (extensionIds c) \<longrightarrow>
                 (\<exists>e. itemById (extensionIds c ! j) c = Some e
                    \<and> itemById (extensionIds c ! j) (extensions (installSelectedCommand h c)) = Some e))
          \<and> (\<forall>j command. Exec j command \<in> set (events (installSelectedCommand h c)) \<longrightarrow> j < k)
          \<and> OutputLine ''Operation cancelled.'' \<in> set (events (installSelectedCommand h c))
          \<and> last (events (installSelectedCommand h c))
              = Shown (InformationMessage
                  (summaryText (installedCount (installSelectedCommand h c))
                     (selectedSettingsItem c \<noteq> None))))"
proof (intro conjI impI)
  assume nc: "\<forall>j<length (extensionIds c). \<not> isCancellationRequested h j"
  show "filter isStepEvent (events (installSelectedCommand h c))
      = concat (map (\<lambda>j. CancellationChecked j # stepEvents h (getCLIPath h) j (extensionIds c ! j))
                  [0..<length (extensionIds c)])"
  proof (cases "getSelectedExtensions c = []")
    case True
    then show ?thesis
      by (simp add: installSelectedCommand_def Let_def extensionIds_def)
  next
    case False
    have "\<forall>j<length (extensionIds c). \<not> isCancellationRequested h (0 + j)" using nc by simp
    then show ?thesis
      using stepTrace_complete[of "extensionIds c" h 0 "getCLIPath h"]
      by (simp add: run_step_events[OF False])
  qed
next
  assume a: "k < length (extensionIds c) \<and> (\<forall>j<k. \<not> isCancellationRequested h j)
            \<and> isCancellationRequested h k"
  note f = run_cancelled_facts[OF assms, of k h]
  show "filter isStepEvent (events (installSelectedCommand h c))
              = concat (map (\<lambda>j. CancellationChecked j
                                 # stepEvents h (getCLIPath h) j (extensionIds c ! j)) [0..<k])
                @ [CancellationChecked k]"
    using f a by blast
  show "\<forall>j<k. \<exists>e. itemById (extensionIds c ! j) (extensions (installSelectedCommand h c)) = Some e
                       \<and> terminal (status e)"
    using f a by blast
  show "\<forall>j. k \<le> j \<and> j < length (extensionIds c) \<longrightarrow>
                 (\<exists>e. itemById (extensionIds c ! j) c = Some e
                    \<and> itemById (extensionIds c ! j) (extensions (installSelectedCommand h c)) = Some e)"
    using f a by blast
  show "\<forall>j command. Exec j command \<in> set (events (installSelectedCommand h c)) \<longrightarrow> j < k"
    using f a by blast
  show "OutputLine ''Operation cancelled.'' \<in> set (events (installSelectedCommand h c))"
    using f a by blast
  show "last (events (installSelectedCommand h c))
              = Shown (InformationMessage
                  (summaryText (installedCount (installSelectedCommand h c))
                     (selectedSettingsItem c \<noteq> None)))"
    using f a by blast
qed

text \<open>
  The theorem at the three example items, with cancellation requested before the second:
  the token is read twice, the first item is installed, the other two stay Pending.
\<close>

theorem C2_cancellation_witness:
  "filter isStepEvent (events (installSelectedCommand (cancelAt 1 exampleHost) threeItems))
     = [CancellationChecked 0, GetExtension 0 ''pub.a'',
        Exec 0 (installCommand (getCLIPath exampleHost) ''pub.a''), CancellationChecked 1]
   \<and> map status (extensions (installSelectedCommand (cancelAt 1 exampleHost) threeItems))
       = [Success, Pending, Pending]
   \<and> OutputLine ''Operation cancelled.''
       \<in> set (events (installSelectedCommand (cancelAt 1 exampleHost) threeItems))"
proof -
  have k: "1 < length (extensionIds threeItems)" by (simp add: threeItems_facts)
  have nc: "\<forall>j<1. \<not> isCancellationRequested (cancelAt 1 exampleHost) j"
    by (simp add: cancelAt_def)
  have ca: "isCancellationRequested (cancelAt 1 exampleHost) 1" by (simp add: cancelAt_def)
  have st: "map status (extensions (installSelectedCommand (cancelAt 1 exampleHost) threeItems))
       = [Success, Pending, Pending]" by code_simp
  have cli: "getCLIPath (cancelAt (Suc 0) exampleHost) = getCLIPath exampleHost"
    by code_simp
  have g: "\<not> getExtension (cancelAt 1 exampleHost) 0 ''pub.a''"
    by (simp add: cancelAt_def exampleHost_def)
  show ?thesis
    using C2_cancellation_between_steps[OF threeItems_facts(1), of "cancelAt 1 exampleHost" 1,
        THEN conjunct2] k nc ca st g
    by (simp add: threeItems_facts stepEvents_def cli)
qed

text \<open>
  Against C2 as stated. A run cancelled before its second item and a run that nobody
  cancels end with the same message, so the summary does not mark the cancelled run; the
  cancellation shows only as a line of the output channel. And when the second selected
  item repeats the id of the first, a run cancelled before its third item leaves the
  second item Pending.
\<close>

theorem C2_summary_counterexample:
  "last (events (installSelectedCommand (cancelAt 1 exampleHost) threeItems))
     = Shown (InformationMessage ''Process complete. Installed: 1 extensions. Settings applied: No.'')
   \<and> last (events (installSelectedCommand exampleHost threeItems))
     = Shown (InformationMessage ''Process complete. Installed: 1 extensions. Settings applied: No.'')
   \<and> isCancellationRequested (cancelAt 1 exampleHost) 1
   \<and> OutputLine ''Operation cancelled.''
       \<notin> set (events (installSelectedCommand exampleHost threeItems))
   \<and> map status (extensions (installSelectedCommand (cancelAt 2 exampleHost)
         [exampleItem ''pub.a'', exampleItem ''pub.a'', exampleItem ''pub.c'']))
       = [Success, Pending, Pending]"
  by code_simp

subsection \<open>C3: the CLI resolver\<close>




subsection \<open>C4: merging the settings\<close>



subsection \<open>C5: the settings item\<close>

text \<open>
  C5, as amended. In every state of the collection reached from the empty one by store
  operations that load no descriptor with the id \<^verbatim>\<open>settings\<close>, at most one item
  carries that id, and an item that carries it stands at index 0. \<open>addSettingsItem\<close>
  called any number of times, at least once, from any collection leaves the settings item
  built from the last payload in front of the collection's other items, which keep their
  order: so it is the only item with the reserved id, it holds the payload of the most
  recent call, and this holds for two calls in particular.
\<close>

theorem C5_single_settings_item:
  "(list_all loadsNoSettingsId ops \<longrightarrow>
      length (filter (\<lambda>e. item_id e = ''settings'') (runOps ops)) \<le> 1
      \<and> (\<forall>n<length (runOps ops). item_id (runOps ops ! n) = ''settings'' \<longrightarrow> n = 0))
   \<and> (ps \<noteq> [] \<longrightarrow>
        fold addSettingsItem ps c
          = newExtensionItem settingsDescriptor (last ps) # filter (\<lambda>e. item_id e \<noteq> ''settings'') c)
   \<and> addSettingsItem p2 (addSettingsItem p1 c)
        = newExtensionItem settingsDescriptor p2 # filter (\<lambda>e. item_id e \<noteq> ''settings'') c
   \<and> filter (\<lambda>e. item_id e = ''settings'') (addSettingsItem p c) = [newExtensionItem settingsDescriptor p]
   \<and> item_id (newExtensionItem settingsDescriptor p) = ''settings''
   \<and> settingsData (newExtensionItem settingsDescriptor p) = p
   \<and> filter (\<lambda>e. item_id e \<noteq> ''settings'') (addSettingsItem p c)
        = filter (\<lambda>e. item_id e \<noteq> ''settings'') c"
proof (intro conjI impI)
  assume "list_all loadsNoSettingsId ops"
  then have "''settings'' \<notin> set (tl (map item_id (runOps ops)))"
    unfolding runOps_def by (intro settings_first_fold) simp_all
  then show "length (filter (\<lambda>e. item_id e = ''settings'') (runOps ops)) \<le> 1"
    and "\<forall>n<length (runOps ops). item_id (runOps ops ! n) = ''settings'' \<longrightarrow> n = 0"
    using settings_first_explicit by blast+
next
  assume "ps \<noteq> []"
  then show "fold addSettingsItem ps c
          = newExtensionItem settingsDescriptor (last ps) # filter (\<lambda>e. item_id e \<noteq> ''settings'') c"
    by (rule fold_addSettingsItem)
next
  show "addSettingsItem p2 (addSettingsItem p1 c)
        = newExtensionItem settingsDescriptor p2 # filter (\<lambda>e. item_id e \<noteq> ''settings'') c"
    using fold_addSettingsItem[of "[p1, p2]" c] by simp
next
  show "filter (\<lambda>e. item_id e = ''settings'') (addSettingsItem p c) = [newExtensionItem settingsDescriptor p]"
    by (simp add: addSettingsItem_def item_id_new settingsDescriptor_def filter_empty_conv)
next
  show "item_id (newExtensionItem settingsDescriptor p) = ''settings''"
    by (simp add: item_id_new settingsDescriptor_def)
next
  show "settingsData (newExtensionItem settingsDescriptor p) = p"
    by (simp add: newExtensionItem_fields)
next
  show "filter (\<lambda>e. item_id e \<noteq> ''settings'') (addSettingsItem p c)
        = filter (\<lambda>e. item_id e \<noteq> ''settings'') c"
    by (rule filter_addSettingsItem)
qed

text \<open>The theorem at a sequence of four operations and at two calls on the example items.\<close>

theorem C5_single_settings_item_witness:
  "map item_id (runOps [LoadExtensions [descriptor ''pub.a'', descriptor ''pub.b''],
                        AddSettingsItem (JNum 1), DeselectAll, AddSettingsItem (JNum 2)])
     = [''settings'', ''pub.a'', ''pub.b'']
   \<and> length (filter (\<lambda>e. item_id e = ''settings'')
        (runOps [LoadExtensions [descriptor ''pub.a'', descriptor ''pub.b''],
                 AddSettingsItem (JNum 1), DeselectAll, AddSettingsItem (JNum 2)])) \<le> 1
   \<and> map settingsData (fold addSettingsItem [JNum 1, JNum 2] threeItems)
     = [JNum 2, JUndefined, JUndefined, JUndefined]"
proof -
  let ?ops = "[LoadExtensions [descriptor ''pub.a'', descriptor ''pub.b''],
               AddSettingsItem (JNum 1), DeselectAll, AddSettingsItem (JNum 2)]"
  have l: "list_all loadsNoSettingsId ?ops" by (simp add: descriptor_def)
  have 1: "map item_id (runOps ?ops) = [''settings'', ''pub.a'', ''pub.b'']"
    by (simp add: runOps_def ids_addSettingsItem descriptor_def)
  have 2: "length (filter (\<lambda>e. item_id e = ''settings'') (runOps ?ops)) \<le> 1"
    using C5_single_settings_item[of ?ops, THEN conjunct1] l by simp
  have "fold addSettingsItem [JNum 1, JNum 2] threeItems
      = newExtensionItem settingsDescriptor (last [JNum 1, JNum 2])
          # filter (\<lambda>e. item_id e \<noteq> ''settings'') threeItems"
    using C5_single_settings_item[of _ "[JNum 1, JNum 2]" threeItems, THEN conjunct2, THEN conjunct1]
    by simp
  then have 3: "map settingsData (fold addSettingsItem [JNum 1, JNum 2] threeItems)
     = [JNum 2, JUndefined, JUndefined, JUndefined]"
    by (simp add: threeItems_def exampleItem_def descriptor_def item_id_new newExtensionItem_fields)
  show ?thesis using 1 2 3 by blast
qed

text \<open>
  Against C5 as stated. Loading a list in which two descriptors carry the id
  \<^verbatim>\<open>settings\<close> reaches a collection with two such items, at the indices 1 and 2.
\<close>

theorem C5_loaded_settings_id_counterexample:
  "map item_id (runOps [LoadExtensions [descriptor ''pub.a'', descriptor ''settings'', descriptor ''settings'']])
     = [''pub.a'', ''settings'', ''settings'']
   \<and> length (filter (\<lambda>e. item_id e = ''settings'')
        (runOps [LoadExtensions [descriptor ''pub.a'', descriptor ''settings'', descriptor ''settings'']])) = 2"
  by (simp add: runOps_def descriptor_def item_id_new loadExtensions_def)

subsection \<open>C6: loading\<close>

text \<open>
  C6. For every list of raw descriptors and whatever the collection held before,
  \<open>loadExtensions\<close> yields one item per descriptor, in the order of the list (the
  descriptors of the items are the list itself), every item selected and Pending; the
  result is the constructor mapped over the list and does not depend on the prior
  contents.
\<close>

theorem C6_loadExtensions_fresh:
  "length (loadExtensions ds prior) = length ds
   \<and> map extensionData (loadExtensions ds prior) = ds
   \<and> map selected (loadExtensions ds prior) = replicate (length ds) True
   \<and> map status (loadExtensions ds prior) = replicate (length ds) Pending
   \<and> loadExtensions ds prior = loadExtensions ds []
   \<and> loadExtensions ds prior = map (\<lambda>d. newExtensionItem d JUndefined) ds"
  by (simp add: loadExtensions_def comp_def newExtensionItem_fields map_replicate_const)

subsection \<open>C7: failures do not stop the run\<close>




subsection \<open>C8: loading a file of another shape\<close>

text \<open>
  C8, as amended. Whenever \<open>loadFileCommand\<close> ends by showing an error, the
  collection is the one it was before. It shows the format error
  \<^verbatim>\<open>Invalid extensions file format\<close> when the parsed value is not a list and its
  \<^verbatim>\<open>extensions\<close> property is truthy and not a list, and an error as well when the
  parsed value is \<^verbatim>\<open>null\<close> or \<^verbatim>\<open>undefined\<close>. A parsed value that is not a list
  and whose \<^verbatim>\<open>extensions\<close> property is missing or falsy is no error: it is loaded as
  the empty list of extensions, so the collection becomes empty, but for the settings item
  when the value has truthy \<^verbatim>\<open>settings\<close>.
\<close>

theorem C8_load_abort_leaves_collection:
  "(loadFileCommand h uri c = Some (Some (ErrorMessage t), c') \<longrightarrow> c' = c)
   \<and> (readFileSync h p = Inr content \<and> jsonc_parse h content = Inr data \<and> \<not> isArray data
        \<and> getProp data ''extensions'' = Some v \<and> truthy v \<and> \<not> isArray v
      \<longrightarrow> loadFileCommand h (Some p) c
            = Some (Some (ErrorMessage ''Error loading file: Error: Invalid extensions file format''), c))
   \<and> (readFileSync h p = Inr content \<and> jsonc_parse h content = Inr data
        \<and> getProp data ''extensions'' = None
      \<longrightarrow> (\<exists>t. loadFileCommand h (Some p) c = Some (Some (ErrorMessage t), c)))
   \<and> (readFileSync h p = Inr content \<and> jsonc_parse h content = Inr data \<and> \<not> isArray data
        \<and> getProp data ''extensions'' = Some v \<and> \<not> truthy v \<and> getProp data ''settings'' = Some s
      \<longrightarrow> loadFileCommand h (Some p) c
            = Some (Some (InformationMessage
                       (''Loaded 0 extensions'' @ (if truthy s then '' and settings'' else []) @ ''.'')),
                    if truthy s then addSettingsItem s [] else []))"
proof (intro conjI impI)
  assume "loadFileCommand h uri c = Some (Some (ErrorMessage t), c')"
  then show "c' = c" by (rule loadFileCommand_abort)
next
  assume "readFileSync h p = Inr content \<and> jsonc_parse h content = Inr data \<and> \<not> isArray data
        \<and> getProp data ''extensions'' = Some v \<and> truthy v \<and> \<not> isArray v"
  then show "loadFileCommand h (Some p) c
            = Some (Some (ErrorMessage ''Error loading file: Error: Invalid extensions file format''), c)"
    by (simp add: loadFileCommand_def loadFileTry_def)
next
  assume a: "readFileSync h p = Inr content \<and> jsonc_parse h content = Inr data
        \<and> getProp data ''extensions'' = None"
  then have "\<not> isArray data" by (cases data) auto
  then show "\<exists>t. loadFileCommand h (Some p) c = Some (Some (ErrorMessage t), c)"
    using a by (simp add: loadFileCommand_def loadFileTry_def)
next
  assume "readFileSync h p = Inr content \<and> jsonc_parse h content = Inr data \<and> \<not> isArray data
        \<and> getProp data ''extensions'' = Some v \<and> \<not> truthy v \<and> getProp data ''settings'' = Some s"
  then show "loadFileCommand h (Some p) c
            = Some (Some (InformationMessage
                       (''Loaded 0 extensions'' @ (if truthy s then '' and settings'' else []) @ ''.'')),
                    if truthy s then addSettingsItem s [] else [])"
    by (simp add: loadFileCommand_def loadFileTry_def Let_def loadExtensions_def
          showNat.simps digitChar_def)
qed

text \<open>The theorem at a file whose \<^verbatim>\<open>extensions\<close> is a string and at the file \<^verbatim>\<open>null\<close>.\<close>

theorem C8_load_abort_witness:
  "loadFileCommand (parsedAs (JObj [(''extensions'', JStr ''none'')])) (Some ''export.json'') threeItems
     = Some (Some (ErrorMessage ''Error loading file: Error: Invalid extensions file format''), threeItems)
   \<and> (\<exists>t. loadFileCommand (parsedAs JNull) (Some ''export.json'') threeItems
            = Some (Some (ErrorMessage t), threeItems))"
proof -
  have r: "readFileSync (parsedAs d) ''export.json'' = Inr [] \<and> jsonc_parse (parsedAs d) [] = Inr d" for d
    by (simp add: parsedAs_def exampleHost_def)
  have 1: "loadFileCommand (parsedAs (JObj [(''extensions'', JStr ''none'')])) (Some ''export.json'') threeItems
     = Some (Some (ErrorMessage ''Error loading file: Error: Invalid extensions file format''), threeItems)"
    using C8_load_abort_leaves_collection[of "parsedAs (JObj [(''extensions'', JStr ''none'')])" _
        threeItems _ _ "''export.json''" "[]" "JObj [(''extensions'', JStr ''none'')]" "JStr ''none''",
        THEN conjunct2, THEN conjunct1] r
    by simp
  have 2: "\<exists>t. loadFileCommand (parsedAs JNull) (Some ''export.json'') threeItems
            = Some (Some (ErrorMessage t), threeItems)"
    using C8_load_abort_leaves_collection[of "parsedAs JNull" _
        threeItems _ _ "''export.json''" "[]" JNull,
        THEN conjunct2, THEN conjunct2, THEN conjunct1] r
    by simp
  show ?thesis using 1 2 by blast
qed

text \<open>
  Against C8 as stated. An object without \<^verbatim>\<open>extensions\<close> and the number 42 are
  neither a list of descriptors nor the full object; loading them shows no error and
  empties a collection of three items.
\<close>

theorem C8_not_a_format_error_counterexample:
  "loadFileCommand (parsedAs (JObj [(''name'', JStr ''my editor'')])) (Some ''export.json'') threeItems
     = Some (Some (InformationMessage ''Loaded 0 extensions.''), [])
   \<and> loadFileCommand (parsedAs (JNum 42)) (Some ''export.json'') threeItems
     = Some (Some (InformationMessage ''Loaded 0 extensions.''), [])
   \<and> threeItems \<noteq> []"
  by code_simp

subsection \<open>C9: updating a status\<close>

text \<open>
  C9, as amended. \<open>updateExtensionStatus\<close> with an id that no item carries returns
  the collection as it is. In every case the length and the order of the ids are kept.
  When items carry the id, the first of them, at index \<open>n\<close>, is replaced by itself with
  the new status and error message and with the icon, and the command, that
  \<open>updateIcon\<close> derives from the new status; every other item, and every other field
  of that item, is kept.
\<close>

theorem C9_updateExtensionStatus_frame:
  "(i \<notin> set (map item_id c) \<longrightarrow> updateExtensionStatus i st m c = c)
   \<and> length (updateExtensionStatus i st m c) = length c
   \<and> map item_id (updateExtensionStatus i st m c) = map item_id c
   \<and> (\<forall>n<length c. item_id (c ! n) = i \<and> (\<forall>k<n. item_id (c ! k) \<noteq> i) \<longrightarrow>
        updateExtensionStatus i st m c
          = c[n := (c ! n)\<lparr>status := st, errorMessage := m,
                           iconPath := iconPath (updateIcon ((c ! n)\<lparr>status := st\<rparr>)),
                           command := command (updateIcon ((c ! n)\<lparr>status := st\<rparr>))\<rparr>])"
proof (intro conjI impI allI)
  assume "i \<notin> set (map item_id c)"
  then show "updateExtensionStatus i st m c = c" by (rule updateExtensionStatus_absent)
next
  show "length (updateExtensionStatus i st m c) = length c" by simp
next
  show "map item_id (updateExtensionStatus i st m c) = map item_id c" by simp
next
  fix n
  assume n: "n < length c" and a: "item_id (c ! n) = i \<and> (\<forall>k<n. item_id (c ! k) \<noteq> i)"
  let ?e = "(c ! n)\<lparr>status := st, errorMessage := m\<rparr>"
  have ic: "iconPath (updateIcon ?e) = iconPath (updateIcon ((c ! n)\<lparr>status := st\<rparr>))"
    "command (updateIcon ?e) = command (updateIcon ((c ! n)\<lparr>status := st\<rparr>))"
    by (cases st; simp add: updateIcon_def item_id_def)+
  have "updateExtensionStatus i st m c = c[n := updateIcon ?e]"
    using n a by (intro updateExtensionStatus_first) auto
  also have "updateIcon ?e = ?e\<lparr>iconPath := iconPath (updateIcon ?e), command := command (updateIcon ?e)\<rparr>"
    by (rule updateIcon_shape)
  finally show "updateExtensionStatus i st m c
          = c[n := (c ! n)\<lparr>status := st, errorMessage := m,
                           iconPath := iconPath (updateIcon ((c ! n)\<lparr>status := st\<rparr>)),
                           command := command (updateIcon ((c ! n)\<lparr>status := st\<rparr>))\<rparr>]"
    by (simp add: ic)
qed

text \<open>The theorem at the three example items, for an absent id and for the second item.\<close>

theorem C9_updateExtensionStatus_witness:
  "updateExtensionStatus ''pub.z'' Failed (Some ''exit code 1'') threeItems = threeItems
   \<and> updateExtensionStatus ''pub.b'' Failed (Some ''exit code 1'') threeItems
       = threeItems[1 := (exampleItem ''pub.b'')
           \<lparr>status := Failed, errorMessage := Some ''exit code 1'',
            iconPath := ThemeIcon ''error'' (Some ''testing.iconFailed''),
            command := Some ''vscode-extension-manager.showError''\<rparr>]"
proof -
  have 1: "updateExtensionStatus ''pub.z'' Failed (Some ''exit code 1'') threeItems = threeItems"
    using C9_updateExtensionStatus_frame[of "''pub.z''" threeItems, THEN conjunct1]
    by (simp add: threeItems_def exampleItem_def descriptor_def item_id_new)
  have 2: "updateExtensionStatus ''pub.b'' Failed (Some ''exit code 1'') threeItems
       = threeItems[1 := (exampleItem ''pub.b'')
           \<lparr>status := Failed, errorMessage := Some ''exit code 1'',
            iconPath := ThemeIcon ''error'' (Some ''testing.iconFailed''),
            command := Some ''vscode-extension-manager.showError''\<rparr>]"
    using C9_updateExtensionStatus_frame[of "''pub.b''" threeItems Failed "Some ''exit code 1''",
        THEN conjunct2, THEN conjunct2, THEN conjunct2, rule_format, of 1]
    by (simp add: threeItems_def exampleItem_def descriptor_def item_id_new updateIcon_def)
  show ?thesis using 1 2 by blast
qed

text \<open>
  Against C9 as stated. Updating an item to Success changes its icon as well as its
  status, and updating it to Failed sets its command.
\<close>

theorem C9_icon_changes_counterexample:
  "updateExtensionStatus ''pub.a'' Success None [exampleItem ''pub.a'']
     \<noteq> [(exampleItem ''pub.a'')\<lparr>status := Success, errorMessage := None\<rparr>]
   \<and> iconPath (exampleItem ''pub.a'') = ThemeIcon ''extensions'' None
   \<and> map iconPath (updateExtensionStatus ''pub.a'' Success None [exampleItem ''pub.a''])
       = [ThemeIcon ''check'' (Some ''testing.iconPassed'')]
   \<and> command (exampleItem ''pub.a'') = None
   \<and> map command (updateExtensionStatus ''pub.a'' Failed (Some ''exit code 1'') [exampleItem ''pub.a''])
       = [Some ''vscode-extension-manager.showError'']"
  by (simp add: exampleItem_def descriptor_def item_id_new newExtensionItem_def updateCheckbox_def
        updateIcon_def item_id_def)

subsection \<open>C10: the checkbox mirrors the selection\<close>

text \<open>
  C10. A freshly built item has its checkbox checked exactly when it is selected; every
  store operation keeps this for all items of the collection, so it holds in every
  collection reached from the empty one; and \<open>updateExtensionStatus\<close> leaves the
  \<open>selected\<close> flags and the checkbox states of all items as they are.
\<close>

theorem C10_checkbox_mirrors_selected:
  "checkboxOk (newExtensionItem d sd)
   \<and> (list_all checkboxOk c \<longrightarrow> list_all checkboxOk (applyOp op c))
   \<and> list_all checkboxOk (runOps ops)
   \<and> map selected (updateExtensionStatus i st m c) = map selected c
   \<and> map checkboxState (updateExtensionStatus i st m c) = map checkboxState c"
  using checkboxOk_new checkboxOk_applyOp checkboxOk_fold[of "[]" ops]
    selected_updateExtensionStatus checkboxState_updateExtensionStatus
  by (simp add: runOps_def)

text \<open>The theorem at the three example items, with the checkbox of the second unchecked.\<close>

theorem C10_checkbox_witness:
  "list_all checkboxOk threeItems
   \<and> list_all checkboxOk (applyOp (HandleCheckboxChange 1 Unchecked) threeItems)
   \<and> map checkboxState (applyOp (HandleCheckboxChange 1 Unchecked) threeItems)
       = [Checked, Unchecked, Checked]
   \<and> map selected (applyOp (HandleCheckboxChange 1 Unchecked) threeItems) = [True, False, True]"
proof -
  have a: "list_all checkboxOk threeItems"
    using C10_checkbox_mirrors_selected[THEN conjunct1]
    by (simp add: threeItems_def exampleItem_def)
  have b: "list_all checkboxOk (applyOp (HandleCheckboxChange 1 Unchecked) threeItems)"
    using C10_checkbox_mirrors_selected[of _ _ threeItems "HandleCheckboxChange 1 Unchecked",
        THEN conjunct2, THEN conjunct1] a by blast
  have c: "map checkboxState (applyOp (HandleCheckboxChange 1 Unchecked) threeItems)
       = [Checked, Unchecked, Checked]
     \<and> map selected (applyOp (HandleCheckboxChange 1 Unchecked) threeItems) = [True, False, True]"
    by (simp add: threeItems_def exampleItem_def newExtensionItem_fields handleCheckboxChange_def
          updateCheckbox_def)
  show ?thesis using a b c by blast
qed

end
